theory Spec2Isabelle
  imports Complex_Main
begin

section \<open>JavaScript numbers\<close>

text \<open>
  The indicator code of \<^verbatim>\<open>src/services/analysis.ts\<close> and the strategy generator of
  \<^verbatim>\<open>src/services/strategy/strategyGenerator.ts\<close> compute on JavaScript numbers. A number
  is modelled as a finite real or one of the three special values. Finite arithmetic is
  exact here: binary64 rounding, overflow to an infinity and the sign of zero are not
  modelled (a zero divisor counts as \<open>+0\<close>). What the special values do in each operation
  follows ECMAScript: every operation on \<open>NaN\<close> gives \<open>NaN\<close>, every comparison with
  \<open>NaN\<close> is false, \<open>0/0\<close> and \<open>Infinity - Infinity\<close> are \<open>NaN\<close>.
\<close>

datatype jsnum = Fin real | PInf | NInf | NaN

fun jneg :: "jsnum \<Rightarrow> jsnum" where
  "jneg (Fin x) = Fin (- x)"
| "jneg PInf = NInf"
| "jneg NInf = PInf"
| "jneg NaN = NaN"

fun jadd :: "jsnum \<Rightarrow> jsnum \<Rightarrow> jsnum" where
  "jadd NaN _ = NaN"
| "jadd _ NaN = NaN"
| "jadd (Fin x) (Fin y) = Fin (x + y)"
| "jadd PInf NInf = NaN"
| "jadd NInf PInf = NaN"
| "jadd PInf _ = PInf"
| "jadd NInf _ = NInf"
| "jadd (Fin x) PInf = PInf"
| "jadd (Fin x) NInf = NInf"

definition jsub :: "jsnum \<Rightarrow> jsnum \<Rightarrow> jsnum" where
  "jsub a b = jadd a (jneg b)"

text \<open>The sign of an infinite product or quotient: positive when the flag is true.\<close>

definition jinf :: "bool \<Rightarrow> jsnum" where
  "jinf pos = (if pos then PInf else NInf)"

fun jmul :: "jsnum \<Rightarrow> jsnum \<Rightarrow> jsnum" where
  "jmul NaN _ = NaN"
| "jmul _ NaN = NaN"
| "jmul (Fin x) (Fin y) = Fin (x * y)"
| "jmul PInf (Fin y) = (if y = 0 then NaN else jinf (0 < y))"
| "jmul NInf (Fin y) = (if y = 0 then NaN else jinf (y < 0))"
| "jmul (Fin x) PInf = (if x = 0 then NaN else jinf (0 < x))"
| "jmul (Fin x) NInf = (if x = 0 then NaN else jinf (x < 0))"
| "jmul PInf PInf = PInf"
| "jmul PInf NInf = NInf"
| "jmul NInf PInf = NInf"
| "jmul NInf NInf = PInf"

fun jdiv :: "jsnum \<Rightarrow> jsnum \<Rightarrow> jsnum" where
  "jdiv NaN _ = NaN"
| "jdiv _ NaN = NaN"
| "jdiv (Fin x) (Fin y) =
     (if y = 0 then (if x = 0 then NaN else jinf (0 < x)) else Fin (x / y))"
| "jdiv (Fin x) PInf = Fin 0"
| "jdiv (Fin x) NInf = Fin 0"
| "jdiv PInf (Fin y) = jinf (0 \<le> y)"
| "jdiv NInf (Fin y) = jinf (y < 0)"
| "jdiv PInf PInf = NaN"
| "jdiv PInf NInf = NaN"
| "jdiv NInf PInf = NaN"
| "jdiv NInf NInf = NaN"

fun jabs :: "jsnum \<Rightarrow> jsnum" where
  "jabs (Fin x) = Fin \<bar>x\<bar>"
| "jabs PInf = PInf"
| "jabs NInf = PInf"
| "jabs NaN = NaN"

text \<open>\<^verbatim>\<open>a < b\<close>; the other three comparisons are written with it, each false on \<open>NaN\<close>.\<close>

fun jlt :: "jsnum \<Rightarrow> jsnum \<Rightarrow> bool" where
  "jlt NaN _ = False"
| "jlt _ NaN = False"
| "jlt (Fin x) (Fin y) = (x < y)"
| "jlt (Fin x) PInf = True"
| "jlt (Fin x) NInf = False"
| "jlt PInf _ = False"
| "jlt NInf NInf = False"
| "jlt NInf _ = True"

definition jgt :: "jsnum \<Rightarrow> jsnum \<Rightarrow> bool" where
  "jgt a b = jlt b a"

fun jisNaN :: "jsnum \<Rightarrow> bool" where
  "jisNaN NaN = True"
| "jisNaN _ = False"

text \<open>\<^verbatim>\<open>a === b\<close> on numbers: \<open>NaN\<close> equals nothing, itself included.\<close>

definition jeq :: "jsnum \<Rightarrow> jsnum \<Rightarrow> bool" where
  "jeq a b = (\<not> jisNaN a \<and> a = b)"

definition jge :: "jsnum \<Rightarrow> jsnum \<Rightarrow> bool" where
  "jge a b = (jgt a b \<or> jeq a b)"

definition jle :: "jsnum \<Rightarrow> jsnum \<Rightarrow> bool" where
  "jle a b = (jlt a b \<or> jeq a b)"

text \<open>\<^verbatim>\<open>Math.min\<close> and \<^verbatim>\<open>Math.max\<close> of two arguments.\<close>

definition jmin :: "jsnum \<Rightarrow> jsnum \<Rightarrow> jsnum" where
  "jmin a b = (if jisNaN a \<or> jisNaN b then NaN else if jlt b a then b else a)"

definition jmax :: "jsnum \<Rightarrow> jsnum \<Rightarrow> jsnum" where
  "jmax a b = (if jisNaN a \<or> jisNaN b then NaN else if jlt a b then b else a)"

text \<open>\<^verbatim>\<open>Math.log\<close>, \<^verbatim>\<open>Math.sqrt\<close> and \<^verbatim>\<open>Math.pow(x, 2)\<close>.\<close>

fun jlog :: "jsnum \<Rightarrow> jsnum" where
  "jlog (Fin x) = (if x < 0 then NaN else if x = 0 then NInf else Fin (ln x))"
| "jlog PInf = PInf"
| "jlog NInf = NaN"
| "jlog NaN = NaN"

fun jsqrt :: "jsnum \<Rightarrow> jsnum" where
  "jsqrt (Fin x) = (if x < 0 then NaN else Fin (sqrt x))"
| "jsqrt PInf = PInf"
| "jsqrt NInf = NaN"
| "jsqrt NaN = NaN"

fun jpow2 :: "jsnum \<Rightarrow> jsnum" where
  "jpow2 (Fin x) = Fin (x * x)"
| "jpow2 PInf = PInf"
| "jpow2 NInf = PInf"
| "jpow2 NaN = NaN"

text \<open>\<^verbatim>\<open>Math.round\<close>: to the nearest integer, halves going up.\<close>

fun jround :: "jsnum \<Rightarrow> jsnum" where
  "jround (Fin x) = Fin (of_int \<lfloor>x + 1 / 2\<rfloor>)"
| "jround v = v"

text \<open>\<^verbatim>\<open>Number.isFinite\<close>, and the truth value of a number (\<open>0\<close> and \<open>NaN\<close> are falsy).\<close>

fun jisFinite :: "jsnum \<Rightarrow> bool" where
  "jisFinite (Fin x) = True"
| "jisFinite _ = False"

fun truthy :: "jsnum \<Rightarrow> bool" where
  "truthy (Fin x) = (x \<noteq> 0)"
| "truthy NaN = False"
| "truthy _ = True"

text \<open>
  A value that may be \<^verbatim>\<open>undefined\<close> is an option. \<open>toNumber\<close> is the coercion that
  arithmetic and comparison apply (\<^verbatim>\<open>undefined\<close> becomes \<open>NaN\<close>); \<open>orElse\<close> is
  \<^verbatim>\<open>v || d\<close> on such a value: the default replaces every falsy value, so \<^verbatim>\<open>undefined\<close>,
  \<open>0\<close> and \<open>NaN\<close>.
\<close>

fun toNumber :: "jsnum option \<Rightarrow> jsnum" where
  "toNumber None = NaN"
| "toNumber (Some v) = v"

fun orElse :: "jsnum option \<Rightarrow> jsnum \<Rightarrow> jsnum" where
  "orElse None d = d"
| "orElse (Some v) d = (if truthy v then v else d)"

text \<open>
  Array reads: \<^verbatim>\<open>xs[i]\<close> is \<^verbatim>\<open>undefined\<close> out of range. \<open>num_at\<close> is the read followed by
  the coercion to a number, as in \<^verbatim>\<open>prices[i] - prices[i - 1]\<close>.
\<close>

definition js_index :: "'a list \<Rightarrow> nat \<Rightarrow> 'a option" where
  "js_index xs i = (if i < length xs then Some (xs ! i) else None)"

definition js_last :: "'a list \<Rightarrow> 'a option" where
  "js_last xs = (if xs = [] then None else Some (last xs))"

definition num_at :: "jsnum list \<Rightarrow> nat \<Rightarrow> jsnum" where
  "num_at xs i = toNumber (js_index xs i)"

text \<open>
  The two values a difference of equal prices can take: \<open>0\<close>, or \<open>NaN\<close> when a read went
  past the end of the array or the prices were not finite.
\<close>

definition zeroish :: "jsnum \<Rightarrow> bool" where
  "zeroish x = (x = Fin 0 \<or> x = NaN)"

section \<open>Market phase\<close>

text \<open>
  \<^verbatim>\<open>determineMarketPhase(prices, ma50, ma200)\<close>: three comparisons, then an if-chain on
  their results. \<open>phaseOf\<close> is the if-chain. The current price is the last element of
  \<^verbatim>\<open>prices\<close>, \<^verbatim>\<open>undefined\<close> for an empty array (every comparison is then false).
\<close>

definition phaseOf :: "bool \<Rightarrow> bool \<Rightarrow> bool \<Rightarrow> string" where
  "phaseOf priceAboveMA50 priceAboveMA200 ma50AboveMA200 =
     (if priceAboveMA50 \<and> priceAboveMA200 \<and> ma50AboveMA200 then ''Bull Market''
      else if \<not> priceAboveMA50 \<and> \<not> priceAboveMA200 \<and> \<not> ma50AboveMA200 then ''Bear Market''
      else if priceAboveMA200 \<and> \<not> priceAboveMA50 then ''Correction''
      else ''Accumulation'')"

definition determineMarketPhase :: "jsnum list \<Rightarrow> jsnum \<Rightarrow> jsnum \<Rightarrow> string" where
  "determineMarketPhase prices ma50 ma200 =
     (let currentPrice = toNumber (js_last prices);
          priceAboveMA50 = jgt currentPrice ma50;
          priceAboveMA200 = jgt currentPrice ma200;
          ma50AboveMA200 = jgt ma50 ma200
      in phaseOf priceAboveMA50 priceAboveMA200 ma50AboveMA200)"

text \<open>The number of rows of the table, out of its eight, that carry a given label.\<close>

definition bool_triples :: "(bool \<times> bool \<times> bool) list" where
  "bool_triples = [(a, b, c). a \<leftarrow> [True, False], b \<leftarrow> [True, False], c \<leftarrow> [True, False]]"

definition phase_rows :: "string \<Rightarrow> nat" where
  "phase_rows label = length (filter (\<lambda>(a, b, c). phaseOf a b c = label) bool_triples)"

section \<open>Confidence scoring\<close>

text \<open>
  \<^verbatim>\<open>calculateConfidence(rsi, macd, volumeRatio, sentiment, volatilityIndex)\<close> of the first
  analysis service. Each sub-score is an immediately invoked function in the source and
  a definition here. The sentiment object is read through \<^verbatim>\<open>||\<close>, so its two scores
  may be absent.
\<close>

record macd_result =
  macd_value :: jsnum
  macd_signal :: jsnum
  macd_histogram :: jsnum

record sentiment =
  newsScore :: "jsnum option"
  socialScore :: "jsnum option"

definition rsiConfidence :: "jsnum \<Rightarrow> jsnum" where
  "rsiConfidence rsi =
     (if jgt rsi (Fin 70) \<or> jlt rsi (Fin 30) then Fin 90
      else if jgt rsi (Fin 60) \<or> jlt rsi (Fin 40) then Fin 75
      else Fin 50)"

definition macdConfidence :: "macd_result \<Rightarrow> jsnum" where
  "macdConfidence macd =
     (let signalDenominator = jmax (Fin (1 / 100)) (jabs (macd_signal macd));
          signalStrength = jdiv (jabs (macd_histogram macd)) signalDenominator;
          normalizedStrength = jmin (Fin 100) (jmul signalStrength (Fin 100))
      in normalizedStrength)"

definition volumeConfidence :: "jsnum \<Rightarrow> jsnum" where
  "volumeConfidence volumeRatio =
     (if jgt volumeRatio (Fin 2) then Fin 90
      else if jgt volumeRatio (Fin (3 / 2)) then Fin 80
      else if jgt volumeRatio (Fin 1) then Fin 70
      else if jgt volumeRatio (Fin (7 / 10)) then Fin 50
      else Fin 30)"

definition sentimentConfidence :: "sentiment \<Rightarrow> jsnum" where
  "sentimentConfidence s =
     (let news = orElse (newsScore s) (Fin 50);
          social = orElse (socialScore s) (Fin 50)
      in jdiv (jadd news social) (Fin 2))"

definition volatilityFactor :: "jsnum \<Rightarrow> jsnum" where
  "volatilityFactor volatilityIndex =
     jmax (Fin (1 / 2)) (jsub (Fin 1) (jdiv volatilityIndex (Fin 100)))"

definition weightedConfidence :: "jsnum \<Rightarrow> macd_result \<Rightarrow> jsnum \<Rightarrow> sentiment \<Rightarrow> jsnum \<Rightarrow> jsnum" where
  "weightedConfidence rsi macd volumeRatio s volatilityIndex =
     jmul
       (jadd
          (jadd
             (jadd (jmul (rsiConfidence rsi) (Fin (25 / 100)))
                (jmul (macdConfidence macd) (Fin (25 / 100))))
             (jmul (volumeConfidence volumeRatio) (Fin (20 / 100))))
          (jmul (sentimentConfidence s) (Fin (20 / 100))))
       (volatilityFactor volatilityIndex)"

definition calculateConfidence :: "jsnum \<Rightarrow> macd_result \<Rightarrow> jsnum \<Rightarrow> sentiment \<Rightarrow> jsnum \<Rightarrow> jsnum" where
  "calculateConfidence rsi macd volumeRatio s volatilityIndex =
     jmin (Fin 95) (jmax (Fin 30) (weightedConfidence rsi macd volumeRatio s volatilityIndex))"

section \<open>Relative strength index\<close>

text \<open>
  \<^verbatim>\<open>calculateRSI(prices, period = 14)\<close>. The first loop runs \<open>i\<close> from 1 to \<open>period\<close> and
  sums the rises and the falls; the second runs from \<open>period + 1\<close> to the end of the
  array and smooths the two averages. The constant 13 is the source's. A read past the
  end of the array is \<^verbatim>\<open>undefined\<close> and makes the difference \<open>NaN\<close>, which takes the
  else branch. \<open>rsi_averages\<close> is the state after the second loop.
\<close>

definition rsi_seed_step :: "jsnum list \<Rightarrow> nat \<Rightarrow> jsnum \<times> jsnum \<Rightarrow> jsnum \<times> jsnum" where
  "rsi_seed_step prices i = (\<lambda>(gains, losses).
     let difference = jsub (num_at prices i) (num_at prices (i - 1))
     in if jge difference (Fin 0) then (jadd gains difference, losses)
        else (gains, jsub losses difference))"

definition rsi_smooth_step :: "jsnum list \<Rightarrow> nat \<Rightarrow> nat \<Rightarrow> jsnum \<times> jsnum \<Rightarrow> jsnum \<times> jsnum" where
  "rsi_smooth_step prices period i = (\<lambda>(avgGain, avgLoss).
     let difference = jsub (num_at prices i) (num_at prices (i - 1))
     in if jge difference (Fin 0)
        then (jdiv (jadd (jmul avgGain (Fin 13)) difference) (Fin (real period)),
              jdiv (jmul avgLoss (Fin 13)) (Fin (real period)))
        else (jdiv (jmul avgGain (Fin 13)) (Fin (real period)),
              jdiv (jsub (jmul avgLoss (Fin 13)) difference) (Fin (real period))))"

definition rsi_seed :: "jsnum list \<Rightarrow> nat \<Rightarrow> jsnum \<times> jsnum" where
  "rsi_seed prices period =
     (let (gains, losses) = fold (rsi_seed_step prices) [1..<period + 1] (Fin 0, Fin 0)
      in (jdiv gains (Fin (real period)), jdiv losses (Fin (real period))))"

definition rsi_averages :: "jsnum list \<Rightarrow> nat \<Rightarrow> jsnum \<times> jsnum" where
  "rsi_averages prices period =
     fold (rsi_smooth_step prices period) [period + 1..<length prices] (rsi_seed prices period)"

definition calculateRSI :: "jsnum list \<Rightarrow> nat \<Rightarrow> jsnum" where
  "calculateRSI prices period =
     (let (avgGain, avgLoss) = rsi_averages prices period;
          rs = jdiv avgGain avgLoss
      in jsub (Fin 100) (jdiv (Fin 100) (jadd (Fin 1) rs)))"

text \<open>
  The update the specification words for the second loop, for comparison with
  \<open>rsi_smooth_step\<close>: \<open>avgGain = (avgGain * (period - 1) + gain) / period\<close> and the same
  for the loss, where the gain is the difference when it is not negative and 0 otherwise,
  and the loss is the negated difference when it is negative and 0 otherwise.
\<close>

definition spec_wilder_step :: "jsnum list \<Rightarrow> nat \<Rightarrow> nat \<Rightarrow> jsnum \<times> jsnum \<Rightarrow> jsnum \<times> jsnum" where
  "spec_wilder_step prices period i = (\<lambda>(avgGain, avgLoss).
     let difference = jsub (num_at prices i) (num_at prices (i - 1));
         gain = (if jge difference (Fin 0) then difference else Fin 0);
         loss = (if jge difference (Fin 0) then Fin 0 else jneg difference)
     in (jdiv (jadd (jmul avgGain (Fin (real period - 1))) gain) (Fin (real period)),
         jdiv (jadd (jmul avgLoss (Fin (real period - 1))) loss) (Fin (real period))))"

definition spec_wilder_averages :: "jsnum list \<Rightarrow> nat \<Rightarrow> jsnum \<times> jsnum" where
  "spec_wilder_averages prices period =
     fold (spec_wilder_step prices period) [period + 1..<length prices] (rsi_seed prices period)"

section \<open>Stochastic RSI\<close>

text \<open>
  \<^verbatim>\<open>calculateStochRSI(prices, period = 14)\<close> of the first analysis service. Each window
  \<^verbatim>\<open>prices.slice(i - period, i + 1)\<close> goes to \<^verbatim>\<open>calculateRSI\<close> with that function's default
  period 14. The loop keeps the values, their running minimum (from \<open>Infinity\<close>) and
  maximum (from \<open>-Infinity\<close>).
\<close>

definition js_slice :: "'a list \<Rightarrow> nat \<Rightarrow> nat \<Rightarrow> 'a list" where
  "js_slice xs from to = drop from (take to xs)"

definition stoch_step :: "jsnum list \<Rightarrow> nat \<Rightarrow> nat \<Rightarrow> jsnum list \<times> jsnum \<times> jsnum \<Rightarrow> jsnum list \<times> jsnum \<times> jsnum" where
  "stoch_step prices period i = (\<lambda>(rsiValues, minRSI, maxRSI).
     let rsi = calculateRSI (js_slice prices (i - period) (i + 1)) 14
     in (rsiValues @ [rsi], jmin minRSI rsi, jmax maxRSI rsi))"

definition stoch_loop :: "jsnum list \<Rightarrow> nat \<Rightarrow> jsnum list \<times> jsnum \<times> jsnum" where
  "stoch_loop prices period =
     fold (stoch_step prices period) [period..<length prices] ([], PInf, NInf)"

definition stoch_range :: "jsnum list \<Rightarrow> nat \<Rightarrow> jsnum" where
  "stoch_range prices period =
     (let (rsiValues, minRSI, maxRSI) = stoch_loop prices period in jsub maxRSI minRSI)"

definition calculateStochRSI :: "jsnum list \<Rightarrow> nat \<Rightarrow> jsnum" where
  "calculateStochRSI prices period =
     (let (rsiValues, minRSI, maxRSI) = stoch_loop prices period;
          lastRSI = toNumber (js_last rsiValues);
          range = jsub maxRSI minRSI
      in if \<not> jisFinite range \<or> jeq range (Fin 0) then Fin 50
         else jmul (jdiv (jsub lastRSI minRSI) range) (Fin 100))"

section \<open>Support and resistance\<close>

text \<open>
  \<^verbatim>\<open>[...prices].sort((a, b) => a - b)\<close>: the array sort is stable and orders by the sign
  of the comparator's result (positive: the second argument goes first; zero or \<open>NaN\<close>:
  the order is kept). \<open>js_sort\<close> inserts the elements from the right, each before the
  first element it is not greater than. On finite numbers the comparator \<open>a - b\<close> is
  consistent and the result is the one ascending order ECMAScript prescribes. When an
  element is \<open>NaN\<close> the comparator is not consistent, ECMAScript leaves the order to the
  implementation, and \<open>js_sort\<close> is then only one of the orders an engine may produce:
  it is relied on for finite prices, for a one-element array, and for \<open>[2, NaN, 1]\<close>,
  where it compares 1 and then 2 with \<open>NaN\<close> only and leaves the array as it is.
\<close>

fun insert_by :: "('a \<Rightarrow> 'a \<Rightarrow> jsnum) \<Rightarrow> 'a \<Rightarrow> 'a list \<Rightarrow> 'a list" where
  "insert_by cmp x [] = [x]"
| "insert_by cmp x (y # ys) =
     (if jgt (cmp x y) (Fin 0) then y # insert_by cmp x ys else x # y # ys)"

definition js_sort :: "('a \<Rightarrow> 'a \<Rightarrow> jsnum) \<Rightarrow> 'a list \<Rightarrow> 'a list" where
  "js_sort cmp xs = foldr (insert_by cmp) xs []"

record support_resistance =
  sr_support :: "jsnum option"
  sr_resistance :: "jsnum option"

definition findSupportResistance :: "jsnum list \<Rightarrow> support_resistance" where
  "findSupportResistance prices =
     (let sortedPrices = js_sort (\<lambda>a b. jsub a b) prices;
          q1Index = nat \<lfloor>real (length prices) * (25 / 100)\<rfloor>;
          q3Index = nat \<lfloor>real (length prices) * (75 / 100)\<rfloor>
      in \<lparr>sr_support = js_index sortedPrices q1Index,
          sr_resistance = js_index sortedPrices q3Index\<rparr>)"

section \<open>Volatility\<close>

text \<open>
  \<^verbatim>\<open>prices.slice(1).map((price, i) => Math.log(price / prices[i]))\<close>, the sum of the
  squares by \<^verbatim>\<open>reduce\<close> from 0, and \<^verbatim>\<open>calculateVolatility\<close> of the first analysis
  service.
\<close>

definition js_map_indexed :: "('a \<Rightarrow> nat \<Rightarrow> 'b) \<Rightarrow> 'a list \<Rightarrow> 'b list" where
  "js_map_indexed f xs = map (\<lambda>(x, i). f x i) (zip xs [0..<length xs])"

definition log_returns :: "jsnum list \<Rightarrow> jsnum list" where
  "log_returns prices =
     js_map_indexed (\<lambda>price i. jlog (jdiv price (num_at prices i))) (drop 1 prices)"

definition sum_squares :: "jsnum list \<Rightarrow> jsnum" where
  "sum_squares returns = fold (\<lambda>ret sum. jadd sum (jpow2 ret)) returns (Fin 0)"

definition calculateVolatility :: "jsnum list \<Rightarrow> jsnum" where
  "calculateVolatility prices =
     (let returns = log_returns prices
      in jmul
           (jmul (jsqrt (jdiv (sum_squares returns) (Fin (real (length returns)))))
              (jsqrt (Fin 365)))
           (Fin 100))"

text \<open>
  The specification's words for the same quantity, on real prices: the log returns, their
  standard deviation (about the mean, over \<open>n\<close> or over \<open>n - 1\<close>), and the root of the
  mean square, which is the deviation about zero.
\<close>

definition spec_log_returns :: "real list \<Rightarrow> real list" where
  "spec_log_returns ps = map (\<lambda>i. ln (ps ! i / ps ! (i - 1))) [1..<length ps]"

definition spec_mean :: "real list \<Rightarrow> real" where
  "spec_mean xs = sum_list xs / real (length xs)"

definition spec_std_dev :: "real list \<Rightarrow> real" where
  "spec_std_dev xs = sqrt (sum_list (map (\<lambda>x. (x - spec_mean xs) ^ 2) xs) / real (length xs))"

definition spec_sample_std_dev :: "real list \<Rightarrow> real" where
  "spec_sample_std_dev xs =
     sqrt (sum_list (map (\<lambda>x. (x - spec_mean xs) ^ 2) xs) / (real (length xs) - 1))"

definition root_mean_square :: "real list \<Rightarrow> real" where
  "root_mean_square xs = sqrt (sum_list (map (\<lambda>x. x ^ 2) xs) / real (length xs))"

section \<open>Moving averages and MACD of the second analysis service\<close>

text \<open>
  \<^verbatim>\<open>calculatePriceTargets\<close> belongs to the second analysis service of
  \<^verbatim>\<open>analysis.ts\<close>, whose \<^verbatim>\<open>calculateSMA\<close> divides by the period and whose
  \<^verbatim>\<open>calculateMACD\<close> takes the signal line from a one-element series.
  \<^verbatim>\<open>slice(-period)\<close> keeps the last \<open>period\<close> elements (all of them for \<open>period = 0\<close>).
  \<^verbatim>\<open>calculateEMA\<close> starts from \<^verbatim>\<open>[prices[0]]\<close>; its elements are only ever used in
  arithmetic, so an \<^verbatim>\<open>undefined\<close> first element is kept as \<open>NaN\<close>.
\<close>

definition js_slice_end :: "'a list \<Rightarrow> nat \<Rightarrow> 'a list" where
  "js_slice_end xs n = (if n = 0 then xs else drop (length xs - n) xs)"

definition calculateSMA :: "jsnum list \<Rightarrow> nat \<Rightarrow> jsnum" where
  "calculateSMA prices period =
     jdiv (fold (\<lambda>b a. jadd a b) (js_slice_end prices period) (Fin 0)) (Fin (real period))"

definition calculateEMA :: "jsnum list \<Rightarrow> nat \<Rightarrow> jsnum list" where
  "calculateEMA prices period =
     (let multiplier = jdiv (Fin 2) (jadd (Fin (real period)) (Fin 1))
      in fold (\<lambda>i ema. ema @
                [jadd (jmul (jsub (num_at prices i) (num_at ema (i - 1))) multiplier)
                   (num_at ema (i - 1))])
           [1..<length prices] [num_at prices 0])"

definition interpretMACD :: "jsnum \<Rightarrow> jsnum \<Rightarrow> jsnum \<Rightarrow> string" where
  "interpretMACD macdLine signalLine histogram =
     (if jgt histogram (Fin 0)
      then (if jgt histogram (jmul histogram (Fin (1 / 10)))
            then ''Strong bullish momentum'' else ''Bullish momentum'')
      else (if jlt histogram (jmul (jneg histogram) (Fin (1 / 10)))
            then ''Strong bearish momentum'' else ''Bearish momentum''))
     @ (if jgt macdLine (Fin 0) \<and> jgt signalLine (Fin 0) then '', upward trend''
        else if jlt macdLine (Fin 0) \<and> jlt signalLine (Fin 0) then '', downward trend''
        else [])
     @ (if jlt (jabs (jsub macdLine signalLine)) (Fin (1 / 10))
        then '', potential trend reversal'' else [])"

record macd_full = macd_result +
  macd_interpretation :: string

definition calculateMACD :: "jsnum list \<Rightarrow> macd_full" where
  "calculateMACD prices =
     (let ema12 = calculateEMA prices 12;
          ema26 = calculateEMA prices 26;
          macdLine = jsub (toNumber (js_last ema12)) (toNumber (js_last ema26));
          signalLine = num_at (calculateEMA [macdLine] 9) 0;
          histogram = jsub macdLine signalLine
      in \<lparr>macd_value = macdLine, macd_signal = signalLine, macd_histogram = histogram,
          macd_interpretation = interpretMACD macdLine signalLine histogram\<rparr>)"

section \<open>Price targets\<close>

text \<open>
  \<^verbatim>\<open>calculatePriceTargets(currentPrice, prices, volatility, support, resistance)\<close>. The
  \<^verbatim>\<open>volatility\<close> parameter is not read: the function recomputes an annualized volatility
  from the prices. The local constants of the source are definitions here; the inner
  \<^verbatim>\<open>calculateConfidence(timeframe)\<close> is \<open>targetConfidence\<close>, and the object literal
  \<^verbatim>\<open>ranges\<close> with its three keys is a record.
\<close>

definition pt_annualizedVol :: "jsnum list \<Rightarrow> jsnum" where
  "pt_annualizedVol prices =
     (let dailyReturns = log_returns prices;
          stdDev = jsqrt (jdiv (sum_squares dailyReturns) (Fin (real (length dailyReturns))))
      in jmul stdDev (jsqrt (Fin 365)))"

definition pt_momentum :: "jsnum list \<Rightarrow> jsnum" where
  "pt_momentum prices =
     (let sma20 = calculateSMA prices 20;
          sma50 = calculateSMA prices 50
      in jdiv (jsub sma20 sma50) sma50)"

definition pt_trendStrength :: "jsnum \<Rightarrow> jsnum list \<Rightarrow> jsnum" where
  "pt_trendStrength currentPrice prices =
     (let sma50 = calculateSMA prices 50
      in jabs (jdiv (jsub currentPrice sma50) sma50))"

record timeframe_weights =
  w_rsi :: jsnum
  w_macd :: jsnum
  w_trend :: jsnum
  w_volatility :: jsnum

definition timeframeWeights :: "string \<Rightarrow> timeframe_weights option" where
  "timeframeWeights timeframe =
     (if timeframe = ''24H''
      then Some \<lparr>w_rsi = Fin (4 / 10), w_macd = Fin (3 / 10), w_trend = Fin (2 / 10),
                 w_volatility = Fin (1 / 10)\<rparr>
      else if timeframe = ''7D''
      then Some \<lparr>w_rsi = Fin (3 / 10), w_macd = Fin (3 / 10), w_trend = Fin (3 / 10),
                 w_volatility = Fin (1 / 10)\<rparr>
      else if timeframe = ''30D''
      then Some \<lparr>w_rsi = Fin (2 / 10), w_macd = Fin (2 / 10), w_trend = Fin (4 / 10),
                 w_volatility = Fin (2 / 10)\<rparr>
      else None)"

definition targetConfidence :: "jsnum \<Rightarrow> jsnum list \<Rightarrow> string \<Rightarrow> jsnum" where
  "targetConfidence currentPrice prices timeframe =
     (let annualizedVol = pt_annualizedVol prices;
          momentum = pt_momentum prices;
          rsi = calculateRSI prices 14;
          macd = calculateMACD prices;
          trendStrength = pt_trendStrength currentPrice prices;
          rsiConf = jdiv (jabs (jsub (Fin 50) rsi)) (Fin 50);
          macdConf = jdiv (jabs (macd_histogram macd)) (jabs (macd_signal macd));
          trendConf = jmin (Fin 1) (jmul trendStrength (Fin 2))
      in case timeframeWeights timeframe of
           None \<Rightarrow> Fin 50
         | Some weights \<Rightarrow>
             (let baseConfidence =
                    jmul
                      (jadd
                         (jadd
                            (jadd (jmul rsiConf (w_rsi weights)) (jmul macdConf (w_macd weights)))
                            (jmul trendConf (w_trend weights)))
                         (jmul (jsub (Fin 1) (jmin (Fin 1) (jdiv annualizedVol (Fin 100))))
                            (w_volatility weights)))
                      (Fin 100);
                  marketConditions =
                    (if jgt momentum (Fin 0) then Fin (11 / 10)
                     else if jlt momentum (Fin 0) then Fin (9 / 10) else Fin 1);
                  volatilityPenalty = jmax (Fin 0) (jsub (Fin 1) (jdiv annualizedVol (Fin 200)));
                  timeDecay =
                    (if timeframe = ''24H'' then Fin 1
                     else if timeframe = ''7D'' then Fin (9 / 10) else Fin (8 / 10))
              in jmin (Fin 95)
                   (jmax (Fin 30)
                      (jmul (jmul (jmul baseConfidence marketConditions) volatilityPenalty)
                         timeDecay))))"

record pt_range =
  volatilityRange :: jsnum
  supportRange :: jsnum
  resistanceRange :: jsnum

record pt_ranges =
  range24H :: pt_range
  range7D :: pt_range
  range30D :: pt_range

definition priceRanges :: "jsnum \<Rightarrow> jsnum \<Rightarrow> jsnum \<Rightarrow> jsnum \<Rightarrow> pt_ranges" where
  "priceRanges currentPrice annualizedVol support resistance =
     \<lparr>range24H =
        \<lparr>volatilityRange = jmul (jmul currentPrice annualizedVol) (Fin (1 / 10)),
         supportRange = jmul (jabs (jsub currentPrice support)) (Fin (2 / 10)),
         resistanceRange = jmul (jabs (jsub resistance currentPrice)) (Fin (2 / 10))\<rparr>,
      range7D =
        \<lparr>volatilityRange = jmul (jmul currentPrice annualizedVol) (Fin (2 / 10)),
         supportRange = jmul (jabs (jsub currentPrice support)) (Fin (4 / 10)),
         resistanceRange = jmul (jabs (jsub resistance currentPrice)) (Fin (4 / 10))\<rparr>,
      range30D =
        \<lparr>volatilityRange = jmul (jmul currentPrice annualizedVol) (Fin (3 / 10)),
         supportRange = jmul (jabs (jsub currentPrice support)) (Fin (6 / 10)),
         resistanceRange = jmul (jabs (jsub resistance currentPrice)) (Fin (6 / 10))\<rparr>\<rparr>"

definition momentumBias :: "jsnum \<Rightarrow> jsnum list \<Rightarrow> jsnum" where
  "momentumBias currentPrice prices =
     jmul (jmul (pt_momentum prices) currentPrice) (Fin (1 / 10))"

record price_target =
  pt_low :: jsnum
  pt_high :: jsnum
  pt_confidence :: jsnum

record price_targets =
  shortTerm :: price_target
  midTerm :: price_target
  longTerm :: price_target

definition calculatePriceTargets ::
  "jsnum \<Rightarrow> jsnum list \<Rightarrow> jsnum \<Rightarrow> jsnum \<Rightarrow> jsnum \<Rightarrow> price_targets" where
  "calculatePriceTargets currentPrice prices volatility support resistance =
     (let ranges = priceRanges currentPrice (pt_annualizedVol prices) support resistance;
          bias = momentumBias currentPrice prices
      in \<lparr>shortTerm =
            \<lparr>pt_low = jmax support
                (jadd (jsub (jsub currentPrice (volatilityRange (range24H ranges)))
                         (supportRange (range24H ranges))) bias),
             pt_high = jmin resistance
                (jadd (jadd (jadd currentPrice (volatilityRange (range24H ranges)))
                         (resistanceRange (range24H ranges))) bias),
             pt_confidence = targetConfidence currentPrice prices ''24H''\<rparr>,
          midTerm =
            \<lparr>pt_low = jmax (jmul support (Fin (95 / 100)))
                (jadd (jsub (jsub currentPrice (volatilityRange (range7D ranges)))
                         (supportRange (range7D ranges))) (jmul bias (Fin 2))),
             pt_high = jmin (jmul resistance (Fin (105 / 100)))
                (jadd (jadd (jadd currentPrice (volatilityRange (range7D ranges)))
                         (resistanceRange (range7D ranges))) (jmul bias (Fin 2))),
             pt_confidence = targetConfidence currentPrice prices ''7D''\<rparr>,
          longTerm =
            \<lparr>pt_low = jmax (jmul support (Fin (9 / 10)))
                (jadd (jsub (jsub currentPrice (volatilityRange (range30D ranges)))
                         (supportRange (range30D ranges))) (jmul bias (Fin 3))),
             pt_high = jmin (jmul resistance (Fin (11 / 10)))
                (jadd (jadd (jadd currentPrice (volatilityRange (range30D ranges)))
                         (resistanceRange (range30D ranges))) (jmul bias (Fin 3))),
             pt_confidence = targetConfidence currentPrice prices ''30D''\<rparr>\<rparr>)"




section \<open>Strategy generator\<close>

text \<open>
  \<^verbatim>\<open>strategyGenerator\<close> of \<^verbatim>\<open>src/services/strategy/strategyGenerator.ts\<close>. Its inputs are
  typed \<^verbatim>\<open>any\<close>; here every object and every field may be \<^verbatim>\<open>undefined\<close>, and a field
  that is present holds a value of the kind the code expects (a number or a string).
  Reading a property of \<^verbatim>\<open>undefined\<close>, or calling a method on it, throws a
  \<^verbatim>\<open>TypeError\<close>; \<^verbatim>\<open>throw new Error(msg)\<close> is the other exception. A function that can
  throw returns a sum, the exception on the left.
\<close>

datatype js_error = Error string | TypeError

definition bindE :: "'e + 'a \<Rightarrow> ('a \<Rightarrow> 'e + 'b) \<Rightarrow> 'e + 'b" where
  "bindE m f = (case m of Inl e \<Rightarrow> Inl e | Inr v \<Rightarrow> f v)"

definition deref :: "'a option \<Rightarrow> js_error + 'a" where
  "deref x = (case x of None \<Rightarrow> Inl TypeError | Some v \<Rightarrow> Inr v)"

text \<open>
  Strings: \<^verbatim>\<open>toLowerCase\<close> on the ASCII letters, \<^verbatim>\<open>includes\<close>, and the text of a
  template literal, whose numbers are kept as numbers (\<open>Fixed d x\<close> is \<^verbatim>\<open>x.toFixed(d)\<close>).
  A string that is \<^verbatim>\<open>undefined\<close> prints as such.
\<close>

definition lower_char :: "char \<Rightarrow> char" where
  "lower_char c =
     (if 65 \<le> (of_char c :: nat) \<and> (of_char c :: nat) \<le> 90
      then char_of (of_char c + 32 :: nat) else c)"

definition toLowerCase :: "string \<Rightarrow> string" where
  "toLowerCase s = map lower_char s"

fun starts_with :: "string \<Rightarrow> string \<Rightarrow> bool" where
  "starts_with s [] = True"
| "starts_with [] (p # ps) = False"
| "starts_with (c # cs) (p # ps) = (c = p \<and> starts_with cs ps)"

fun js_includes :: "string \<Rightarrow> string \<Rightarrow> bool" where
  "js_includes [] pat = starts_with [] pat"
| "js_includes (c # cs) pat = (starts_with (c # cs) pat \<or> js_includes cs pat)"

datatype text_part = Lit string | Num jsnum | Fixed nat jsnum

type_synonym template = "text_part list"

definition show_string :: "string option \<Rightarrow> string" where
  "show_string s = (case s of None \<Rightarrow> ''undefined'' | Some v \<Rightarrow> v)"

text \<open>
  \<^verbatim>\<open>Number(x.toFixed(2))\<close>: two decimals, halves away from zero; the special values
  go through their names and come back unchanged.
\<close>

fun toFixed2 :: "jsnum \<Rightarrow> jsnum" where
  "toFixed2 (Fin x) = Fin (sgn x * of_int \<lfloor>\<bar>x\<bar> * 100 + 1 / 2\<rfloor> / 100)"
| "toFixed2 v = v"

record key_levels =
  kl_support :: "jsnum option"
  kl_resistance :: "jsnum option"

record market_condition =
  mc_phase :: "string option"
  mc_strength :: "jsnum option"
  mc_keyLevels :: "key_levels option"

record rsi_signal =
  rsi_value :: "jsnum option"
  rsi_text :: "string option"

record macd_signal_info =
  macd_number :: "jsnum option"
  macd_text :: "string option"

record momentum_signals =
  mo_rsi :: "rsi_signal option"
  mo_macd :: "macd_signal_info option"

record trend_signal =
  tr_primary :: "string option"
  tr_strength :: "jsnum option"

record volatility_signal =
  vo_current :: "jsnum option"

record technical_signals =
  ts_momentum :: "momentum_signals option"
  ts_trend :: "trend_signal option"
  ts_volatility :: "volatility_signal option"

record strategy_input =
  in_currentPrice :: "jsnum option"
  in_marketCondition :: "market_condition option"
  in_technicalSignals :: "technical_signals option"

record entry_levels =
  conservative :: jsnum
  moderate :: jsnum
  aggressive :: jsnum

record stop_levels =
  tight :: jsnum
  normal :: jsnum
  wide :: jsnum

record target_levels =
  primary :: jsnum
  secondary :: jsnum
  final :: jsnum

record trading_strategy =
  recommendation :: template
  confidence :: jsnum
  entries :: entry_levels
  stopLoss :: stop_levels
  targets :: target_levels
  timeframe :: string
  rationale :: "template list"

datatype stop_kind = Tight | Normal | Wide

datatype target_kind = Primary | Secondary | Final

definition calculateStopLossDistance :: "market_condition option \<Rightarrow> stop_kind \<Rightarrow> js_error + jsnum" where
  "calculateStopLossDistance marketCondition kind =
     bindE (deref marketCondition) (\<lambda>mc.
       let volatility = orElse (mc_strength mc) (Fin (1 / 2));
           multiplier = (case kind of Tight \<Rightarrow> Fin 2 | Normal \<Rightarrow> Fin 3 | Wide \<Rightarrow> Fin 5)
       in Inr (jdiv (jmul volatility multiplier) (Fin 100)))"

definition calculateTargetDistance :: "market_condition option \<Rightarrow> target_kind \<Rightarrow> js_error + jsnum" where
  "calculateTargetDistance marketCondition kind =
     bindE (deref marketCondition) (\<lambda>mc.
     bindE (deref (mc_phase mc)) (\<lambda>phase.
       let trend = toLowerCase phase;
           strength = orElse (mc_strength mc) (Fin (1 / 2));
           baseMultiplier =
             (case kind of Primary \<Rightarrow> Fin 3 | Secondary \<Rightarrow> Fin 5 | Final \<Rightarrow> Fin 8);
           trendMultiplier =
             (if trend = ''bull market'' then Fin (3 / 2)
              else if trend = ''bear market'' then Fin (1 / 2) else Fin 1)
       in Inr (jdiv (jmul (jmul baseMultiplier strength) trendMultiplier) (Fin 100))))"

text \<open>The strategy generator's own \<^verbatim>\<open>calculateConfidence(technicalSignals, marketCondition)\<close>.\<close>

definition calculateConfidence_strategy ::
  "technical_signals option \<Rightarrow> market_condition option \<Rightarrow> js_error + jsnum" where
  "calculateConfidence_strategy technicalSignals marketCondition =
     bindE (deref technicalSignals) (\<lambda>ts.
     bindE (deref (ts_trend ts)) (\<lambda>trend.
     bindE (deref marketCondition) (\<lambda>mc.
     bindE (deref (ts_momentum ts)) (\<lambda>momentum.
     bindE (deref (mo_rsi momentum)) (\<lambda>rsi.
     bindE (deref (mo_macd momentum)) (\<lambda>macd.
       let trendStrength = jmul (toNumber (tr_strength trend)) (Fin 100);
           marketStrength = jmul (toNumber (mc_strength mc)) (Fin 100);
           momentumStrength =
             jadd (if jgt (toNumber (rsi_value rsi)) (Fin 50) then Fin 60 else Fin 40)
                  (if jgt (toNumber (macd_number macd)) (Fin 0) then Fin 10 else Fin (- 10))
       in Inr (jmin (Fin 95) (jmax (Fin 30)
                 (jadd (jadd (jmul trendStrength (Fin (4 / 10)))
                             (jmul marketStrength (Fin (3 / 10))))
                       (jmul momentumStrength (Fin (3 / 10))))))))))))"

definition calculateConservativeEntry ::
  "jsnum \<Rightarrow> technical_signals option \<Rightarrow> key_levels option \<Rightarrow> js_error + jsnum" where
  "calculateConservativeEntry currentPrice technicalSignals keyLevels =
     bindE (deref keyLevels) (\<lambda>kl.
     bindE (deref technicalSignals) (\<lambda>ts.
     bindE (deref (ts_volatility ts)) (\<lambda>vol.
       let support = orElse (kl_support kl) (jmul currentPrice (Fin (95 / 100)));
           volatility = jdiv (toNumber (vo_current vol)) (Fin 100)
       in Inr (jmax support
                 (jmul currentPrice (jsub (Fin 1) (jmin (Fin (5 / 100)) volatility)))))))"

definition calculateAggressiveEntry ::
  "jsnum \<Rightarrow> technical_signals option \<Rightarrow> key_levels option \<Rightarrow> js_error + jsnum" where
  "calculateAggressiveEntry currentPrice technicalSignals keyLevels =
     bindE (deref keyLevels) (\<lambda>kl.
     bindE (deref technicalSignals) (\<lambda>ts.
     bindE (deref (ts_volatility ts)) (\<lambda>vol.
       let resistance = orElse (kl_resistance kl) (jmul currentPrice (Fin (105 / 100)));
           volatility = jdiv (toNumber (vo_current vol)) (Fin 100);
           entryPoint = jmul currentPrice (jadd (Fin 1) (jmin (Fin (3 / 100)) volatility))
       in Inr (jmin entryPoint resistance))))"

text \<open>
  \<^verbatim>\<open>determineRecommendation\<close>: the rules are tried in order and the first that applies
  decides; \<open>recommend\<close> is that if-chain, returning the label and the confidence it
  leaves.
\<close>

definition recommend ::
  "jsnum \<Rightarrow> string \<Rightarrow> string \<Rightarrow> string \<Rightarrow> jsnum \<Rightarrow> string \<times> jsnum" where
  "recommend rsiValue trend macdSignal marketPhase conf =
     (if jgt rsiValue (Fin 70) \<and> js_includes trend ''bullish''
      then (''Take Profit'', jmax conf (jmin (Fin 90) rsiValue))
      else if jlt rsiValue (Fin 30) \<and> js_includes trend ''bearish''
      then (''Buy'', jmax conf (jmin (Fin 90) (jsub (Fin 100) rsiValue)))
      else if js_includes trend ''bullish''
              \<and> (js_includes macdSignal ''bullish'' \<or> jgt rsiValue (Fin 55))
      then (''Buy'', jmax conf (Fin 65))
      else if js_includes trend ''bearish''
              \<and> (js_includes macdSignal ''bearish'' \<or> jlt rsiValue (Fin 45))
      then (''Sell'', jmax conf (Fin 65))
      else if js_includes marketPhase ''accumulation''
      then (''Buy'', jmax conf (Fin 60))
      else if js_includes marketPhase ''distribution''
      then (''Sell'', jmax conf (Fin 60))
      else (''Hold'', conf))"

definition determineRecommendation ::
  "technical_signals option \<Rightarrow> market_condition option \<Rightarrow> js_error + string \<times> jsnum" where
  "determineRecommendation technicalSignals marketCondition =
     bindE (deref technicalSignals) (\<lambda>ts.
     bindE (deref (ts_momentum ts)) (\<lambda>momentum.
     bindE (deref (ts_trend ts)) (\<lambda>trendSignal.
     bindE (deref marketCondition) (\<lambda>mc.
       let rsi = mo_rsi momentum;
           macd = mo_macd momentum;
           trend = toLowerCase
             (case tr_primary trendSignal of None \<Rightarrow> ''neutral'' | Some t \<Rightarrow> t);
           marketPhase = toLowerCase
             (case mc_phase mc of None \<Rightarrow> ''neutral'' | Some p \<Rightarrow> p);
           rsiValue =
             (case rsi of None \<Rightarrow> Fin 50
              | Some r \<Rightarrow> (case rsi_value r of None \<Rightarrow> Fin 50 | Some v \<Rightarrow> v));
           macdSignal = toLowerCase
             (case macd of None \<Rightarrow> []
              | Some m \<Rightarrow> (case macd_text m of None \<Rightarrow> [] | Some t \<Rightarrow> t))
       in bindE (calculateConfidence_strategy technicalSignals marketCondition) (\<lambda>c.
            let baseConfidence = jround c;
                (label, conf) =
                  recommend rsiValue trend macdSignal marketPhase
                    (jmin (Fin 95) (jmax (Fin 35) baseConfidence));
                boosted =
                  (if js_includes macdSignal ''bullish'' \<and> label = ''Buy''
                   then jadd conf (Fin 8)
                   else if js_includes macdSignal ''bearish'' \<and> label = ''Sell''
                   then jadd conf (Fin 8)
                   else conf)
            in Inr (label,
                    jmin (Fin 95) (jdiv (jround (jmul boosted (Fin 100))) (Fin 100))))))))"

definition determineTimeframe ::
  "technical_signals option \<Rightarrow> market_condition option \<Rightarrow> js_error + string" where
  "determineTimeframe technicalSignals marketCondition =
     bindE (deref technicalSignals) (\<lambda>ts.
     bindE (deref (ts_volatility ts)) (\<lambda>vol.
     bindE (deref marketCondition) (\<lambda>mc.
     bindE (deref (mc_phase mc)) (\<lambda>phase.
       let volatility = toNumber (vo_current vol);
           marketPhase = toLowerCase phase;
           strength = orElse (mc_strength mc) (Fin (1 / 2))
       in Inr
            (if marketPhase = ''bull market'' \<and> jgt strength (Fin (7 / 10))
             then (if jgt volatility (Fin 50) then ''Short-term'' else ''Medium-term'')
             else if marketPhase = ''bear market'' \<and> jgt strength (Fin (7 / 10))
             then ''Long-term''
             else if marketPhase = ''accumulation'' then ''Medium-term''
             else if marketPhase = ''distribution'' then ''Short-term''
             else if jgt volatility (Fin 50) then ''Short-term''
             else if jlt volatility (Fin 20) then ''Long-term''
             else ''Medium-term'')))))"

definition generateRationale ::
  "technical_signals option \<Rightarrow> market_condition option \<Rightarrow> js_error + template list" where
  "generateRationale technicalSignals marketCondition =
     bindE (deref marketCondition) (\<lambda>mc.
     bindE (deref technicalSignals) (\<lambda>ts.
     bindE (deref (ts_momentum ts)) (\<lambda>momentum.
     bindE (deref (mo_rsi momentum)) (\<lambda>rsi.
     bindE (deref (mo_macd momentum)) (\<lambda>macd.
       let phaseLine =
             [Lit ''Market Phase: '', Lit (show_string (mc_phase mc)), Lit '' with '',
              Fixed 1 (jmul (toNumber (mc_strength mc)) (Fin 100)), Lit ''% strength''];
           rsiLine = [Lit ''RSI: '', Lit (show_string (rsi_text rsi))];
           macdLine = [Lit ''MACD: '', Lit (show_string (macd_text macd))]
       in bindE
            (case mc_keyLevels mc of
               None \<Rightarrow> Inr []
             | Some kl \<Rightarrow>
                 bindE (deref (kl_support kl)) (\<lambda>support.
                 bindE (deref (kl_resistance kl)) (\<lambda>resistance.
                   Inr [[Lit ''Support at $'', Fixed 2 support],
                        [Lit ''Resistance at $'', Fixed 2 resistance]])))
            (\<lambda>levelLines.
               bindE (deref (ts_trend ts)) (\<lambda>trend.
                 Inr ([phaseLine, rsiLine, macdLine] @ levelLines @
                      (if jgt (toNumber (tr_strength trend)) (Fin (7 / 10))
                       then [[Lit ''Strong '', Lit (show_string (tr_primary trend)),
                              Lit '' trend'']]
                       else [])))))))))"

definition getDefaultStrategy :: trading_strategy where
  "getDefaultStrategy =
     (let defaultPrice = Fin 76000
      in \<lparr>recommendation = [Lit ''Hold''],
          confidence = Fin 50,
          entries = \<lparr>conservative = jmul defaultPrice (Fin (98 / 100)),
                     moderate = defaultPrice,
                     aggressive = jmul defaultPrice (Fin (102 / 100))\<rparr>,
          stopLoss = \<lparr>tight = jmul defaultPrice (Fin (95 / 100)),
                      normal = jmul defaultPrice (Fin (97 / 100)),
                      wide = jmul defaultPrice (Fin (93 / 100))\<rparr>,
          targets = \<lparr>primary = jmul defaultPrice (Fin (103 / 100)),
                     secondary = jmul defaultPrice (Fin (105 / 100)),
                     final = jmul defaultPrice (Fin (108 / 100))\<rparr>,
          timeframe = ''Medium-term'',
          rationale = [[Lit ''Using default strategy due to insufficient data'']]\<rparr>)"

text \<open>
  \<^verbatim>\<open>generateStrategy(data)\<close>. \<open>generateStrategy_try\<close> is the body of the \<^verbatim>\<open>try\<close> block,
  statement by statement; the price check is its first statement. \<open>generateStrategy\<close>
  adds the \<^verbatim>\<open>catch\<close>, which logs the exception with \<^verbatim>\<open>console.error\<close> and returns the
  default strategy. Its result is the list of logged exceptions and the outcome of the
  promise: \<open>Inr\<close> when it is fulfilled with a strategy, \<open>Inl\<close> when it is rejected.
\<close>

definition generateStrategy_try :: "strategy_input \<Rightarrow> js_error + trading_strategy" where
  "generateStrategy_try data =
     (let currentPrice = toNumber (in_currentPrice data);
          marketCondition = in_marketCondition data;
          technicalSignals = in_technicalSignals data
      in if \<not> truthy currentPrice \<or> jisNaN currentPrice
         then Inl (Error ''Invalid current price'')
         else
           bindE (deref marketCondition) (\<lambda>mc.
           bindE (calculateConservativeEntry currentPrice technicalSignals (mc_keyLevels mc))
             (\<lambda>conservativeEntry.
           bindE (calculateAggressiveEntry currentPrice technicalSignals (mc_keyLevels mc))
             (\<lambda>aggressiveEntry.
             let computed = \<lparr>conservative = toFixed2 conservativeEntry,
                             moderate = toFixed2 currentPrice,
                             aggressive = toFixed2 aggressiveEntry\<rparr>;
                 levels =
                   (if jisNaN (aggressive computed) \<or> jeq (aggressive computed) (Fin 0)
                    then computed\<lparr>aggressive := toFixed2 (jmul currentPrice (Fin (102 / 100)))\<rparr>
                    else computed)
             in
           bindE (determineRecommendation technicalSignals marketCondition) (\<lambda>(label, conf).
           bindE (calculateStopLossDistance marketCondition Tight) (\<lambda>tightDistance.
           bindE (calculateStopLossDistance marketCondition Normal) (\<lambda>normalDistance.
           bindE (calculateStopLossDistance marketCondition Wide) (\<lambda>wideDistance.
           bindE (calculateTargetDistance marketCondition Primary) (\<lambda>primaryDistance.
           bindE (calculateTargetDistance marketCondition Secondary) (\<lambda>secondaryDistance.
           bindE (calculateTargetDistance marketCondition Final) (\<lambda>finalDistance.
           bindE (generateRationale technicalSignals marketCondition) (\<lambda>reasons.
           bindE (determineTimeframe technicalSignals marketCondition) (\<lambda>frame.
             Inr \<lparr>recommendation = [Lit label, Lit '' ('', Num conf, Lit ''%)''],
                  confidence = conf,
                  entries = levels,
                  stopLoss =
                    \<lparr>tight = toFixed2 (jmul currentPrice (jsub (Fin 1) tightDistance)),
                     normal = toFixed2 (jmul currentPrice (jsub (Fin 1) normalDistance)),
                     wide = toFixed2 (jmul currentPrice (jsub (Fin 1) wideDistance))\<rparr>,
                  targets =
                    \<lparr>primary = toFixed2 (jmul currentPrice (jadd (Fin 1) primaryDistance)),
                     secondary = toFixed2 (jmul currentPrice (jadd (Fin 1) secondaryDistance)),
                     final = toFixed2 (jmul currentPrice (jadd (Fin 1) finalDistance))\<rparr>,
                  timeframe = frame,
                  rationale = reasons\<rparr>)))))))))))))"

definition generateStrategy :: "strategy_input \<Rightarrow> js_error list \<times> (js_error + trading_strategy)" where
  "generateStrategy data =
     (case generateStrategy_try data of
        Inl error \<Rightarrow> ([error], Inr getDefaultStrategy)
      | Inr strategy \<Rightarrow> ([], Inr strategy))"

text \<open>
  A well-formed input for the examples: a price of 100 in a bull market of strength 0.8
  with support 95 and resistance 110, an RSI of 75, a positive MACD, a bullish trend of
  strength 0.8 and a volatility of 30.
\<close>

definition sample_input :: strategy_input where
  "sample_input =
     \<lparr>in_currentPrice = Some (Fin 100),
      in_marketCondition = Some
        \<lparr>mc_phase = Some ''Bull Market'', mc_strength = Some (Fin (8 / 10)),
         mc_keyLevels = Some \<lparr>kl_support = Some (Fin 95), kl_resistance = Some (Fin 110)\<rparr>\<rparr>,
      in_technicalSignals = Some
        \<lparr>ts_momentum = Some
           \<lparr>mo_rsi = Some \<lparr>rsi_value = Some (Fin 75), rsi_text = Some ''Overbought''\<rparr>,
            mo_macd = Some \<lparr>macd_number = Some (Fin 1), macd_text = Some ''Bullish''\<rparr>\<rparr>,
         ts_trend = Some \<lparr>tr_primary = Some ''Bullish'', tr_strength = Some (Fin (8 / 10))\<rparr>,
         ts_volatility = Some \<lparr>vo_current = Some (Fin 30)\<rparr>\<rparr>\<rparr>"

text \<open>The same input without key levels, and with key levels that lack the support.\<close>

definition sample_without_levels :: strategy_input where
  "sample_without_levels =
     sample_input\<lparr>in_marketCondition := Some
        \<lparr>mc_phase = Some ''Bull Market'', mc_strength = Some (Fin (8 / 10)),
         mc_keyLevels = None\<rparr>\<rparr>"

definition sample_without_support :: strategy_input where
  "sample_without_support =
     sample_input\<lparr>in_marketCondition := Some
        \<lparr>mc_phase = Some ''Bull Market'', mc_strength = Some (Fin (8 / 10)),
         mc_keyLevels = Some \<lparr>kl_support = None, kl_resistance = Some (Fin 110)\<rparr>\<rparr>\<rparr>"

section \<open>Facts about the number model\<close>

lemma jsub_Fin [simp]: "jsub (Fin a) (Fin b) = Fin (a - b)"
  by (simp add: jsub_def)

lemma jmax_Fin [simp]: "jmax (Fin a) (Fin b) = Fin (max a b)"
  by (simp add: jmax_def max_def)

lemma jmin_Fin [simp]: "jmin (Fin a) (Fin b) = Fin (min a b)"
  by (simp add: jmin_def min_def)

lemma jgt_Fin [simp]: "jgt (Fin a) (Fin b) = (b < a)"
  by (simp add: jgt_def)

lemma jle_Fin [simp]: "jle (Fin a) (Fin b) = (a \<le> b)"
  by (auto simp add: jle_def jeq_def)

lemma jge_Fin [simp]: "jge (Fin a) (Fin b) = (b \<le> a)"
  by (auto simp add: jge_def jgt_def jeq_def)

lemma jsub_NaN [simp]: "jsub x NaN = NaN" "jsub NaN x = NaN"
  by (cases x; simp add: jsub_def)+

lemma jadd_NaN_right [simp]: "jadd x NaN = NaN"
  by (cases x) simp_all

lemma jmin_NaN [simp]: "jmin x NaN = NaN"
  by (simp add: jmin_def)

lemma jmax_NaN [simp]: "jmax x NaN = NaN"
  by (simp add: jmax_def)

lemma num_at_map_Fin: "i < length ps \<Longrightarrow> num_at (map Fin ps) i = Fin (ps ! i)"
  by (simp add: num_at_def js_index_def)

lemma num_at_replicate: "num_at (replicate m v) i = (if i < m then v else NaN)"
  by (simp add: num_at_def js_index_def)

lemma num_at_Cons_0 [simp]: "num_at (x # xs) 0 = x"
  by (simp add: num_at_def js_index_def)

lemma num_at_Cons_Suc [simp]: "num_at (x # xs) (Suc n) = num_at xs n"
  by (simp add: num_at_def js_index_def)

lemma num_at_Nil [simp]: "num_at [] n = NaN"
  by (simp add: num_at_def js_index_def)

text \<open>An invariant of a loop body is an invariant of the loop.\<close>

lemma fold_invariant:
  assumes "P s" and "\<And>x s. x \<in> set xs \<Longrightarrow> P s \<Longrightarrow> P (f x s)"
  shows "P (fold f xs s)"
  using assms by (induction xs arbitrary: s) simp_all

section \<open>The market phase table\<close>

text \<open>
  C2 (as amended). The market phase is a function of the three comparisons alone, and
  its table over the eight combinations of (price above MA50, price above MA200, MA50
  above MA200) is: (T,T,T) is a bull market, (F,F,F) a bear market, (F,T,T) and (F,T,F)
  a correction, and the remaining four combinations, (T,T,F), (T,F,T), (T,F,F) and
  (F,F,T), are accumulation.
\<close>

theorem determineMarketPhase_table:
  "determineMarketPhase prices ma50 ma200 =
     phaseOf (jgt (toNumber (js_last prices)) ma50) (jgt (toNumber (js_last prices)) ma200)
       (jgt ma50 ma200)
   \<and> phaseOf True True True = ''Bull Market''
   \<and> phaseOf False False False = ''Bear Market''
   \<and> phaseOf False True True = ''Correction''
   \<and> phaseOf False True False = ''Correction''
   \<and> phaseOf True True False = ''Accumulation''
   \<and> phaseOf True False True = ''Accumulation''
   \<and> phaseOf True False False = ''Accumulation''
   \<and> phaseOf False False True = ''Accumulation''"
proof -
  have "determineMarketPhase prices ma50 ma200 =
     phaseOf (jgt (toNumber (js_last prices)) ma50) (jgt (toNumber (js_last prices)) ma200)
       (jgt ma50 ma200)"
    by (simp only: determineMarketPhase_def Let_def)
  then show ?thesis
    by (simp add: phaseOf_def)
qed

text \<open>
  C2 as stated speaks of five remaining combinations. Of the eight combinations exactly
  four are classified as accumulation; one is a bull market, one a bear market and two
  are corrections.
\<close>

theorem determineMarketPhase_five_counterexample:
  "phase_rows ''Accumulation'' \<noteq> 5
   \<and> phase_rows ''Accumulation'' = 4
   \<and> phase_rows ''Bull Market'' = 1
   \<and> phase_rows ''Bear Market'' = 1
   \<and> phase_rows ''Correction'' = 2"
  by (simp add: phase_rows_def bool_triples_def phaseOf_def)

section \<open>The confidence score\<close>

lemma rsiConfidence_Fin: "\<exists>c. rsiConfidence x = Fin c"
  by (simp add: rsiConfidence_def)

lemma volumeConfidence_Fin: "\<exists>c. volumeConfidence x = Fin c"
  by (simp add: volumeConfidence_def)

lemma macdConfidence_Fin:
  "\<exists>c. macdConfidence \<lparr>macd_value = Fin v, macd_signal = Fin s, macd_histogram = Fin h\<rparr> = Fin c"
proof -
  have "(1 / 100 :: real) \<le> max (1 / 100) \<bar>s\<bar>" by (rule max.cobounded1)
  then have "max (1 / 100) \<bar>s\<bar> \<noteq> 0" by linarith
  then show ?thesis by (simp add: macdConfidence_def Let_def)
qed

lemma orElse_Fin: "\<exists>c. orElse (map_option Fin x) (Fin d) = Fin c"
  by (cases x) simp_all

lemma sentimentConfidence_Fin:
  "\<exists>c. sentimentConfidence \<lparr>newsScore = map_option Fin ns, socialScore = map_option Fin ss\<rparr>
     = Fin c"
proof -
  obtain a where a: "orElse (map_option Fin ns) (Fin 50) = Fin a" using orElse_Fin by blast
  obtain b where b: "orElse (map_option Fin ss) (Fin 50) = Fin b" using orElse_Fin by blast
  have "sentimentConfidence \<lparr>newsScore = map_option Fin ns, socialScore = map_option Fin ss\<rparr>
      = Fin ((a + b) / 2)"
    by (simp add: sentimentConfidence_def Let_def a b)
  then show ?thesis by blast
qed

lemma volatilityFactor_Fin: "\<exists>c. volatilityFactor (Fin x) = Fin c"
  by (simp add: volatilityFactor_def)

lemma weightedConfidence_Fin:
  "\<exists>c. weightedConfidence (Fin rsi)
         \<lparr>macd_value = Fin v, macd_signal = Fin s, macd_histogram = Fin h\<rparr> (Fin vr)
         \<lparr>newsScore = map_option Fin ns, socialScore = map_option Fin ss\<rparr> (Fin vi) = Fin c"
proof -
  obtain a where a: "rsiConfidence (Fin rsi) = Fin a"
    using rsiConfidence_Fin by blast
  obtain b where b:
    "macdConfidence \<lparr>macd_value = Fin v, macd_signal = Fin s, macd_histogram = Fin h\<rparr> = Fin b"
    using macdConfidence_Fin by blast
  obtain c where c: "volumeConfidence (Fin vr) = Fin c"
    using volumeConfidence_Fin by blast
  obtain d where d:
    "sentimentConfidence \<lparr>newsScore = map_option Fin ns, socialScore = map_option Fin ss\<rparr> = Fin d"
    using sentimentConfidence_Fin by blast
  obtain e where e: "volatilityFactor (Fin vi) = Fin e"
    using volatilityFactor_Fin by blast
  show ?thesis unfolding weightedConfidence_def a b c d e by simp
qed

text \<open>
  C6. For finite inputs (a finite RSI, finite MACD value, signal and histogram, a finite
  volume ratio, sentiment scores that are finite or absent, and a finite volatility
  index) \<^verbatim>\<open>calculateConfidence\<close> returns a finite number between 30 and 95.
\<close>

theorem calculateConfidence_bounds:
  "\<exists>c. calculateConfidence (Fin rsi)
         \<lparr>macd_value = Fin v, macd_signal = Fin s, macd_histogram = Fin h\<rparr> (Fin vr)
         \<lparr>newsScore = map_option Fin ns, socialScore = map_option Fin ss\<rparr> (Fin vi) = Fin c
       \<and> 30 \<le> c \<and> c \<le> 95"
proof -
  obtain w where w:
    "weightedConfidence (Fin rsi)
       \<lparr>macd_value = Fin v, macd_signal = Fin s, macd_histogram = Fin h\<rparr> (Fin vr)
       \<lparr>newsScore = map_option Fin ns, socialScore = map_option Fin ss\<rparr> (Fin vi) = Fin w"
    using weightedConfidence_Fin by blast
  show ?thesis unfolding calculateConfidence_def w by simp
qed

text \<open>
  The score at one finite input: an RSI of 75, a MACD histogram of 2 on a signal of 4,
  a volume ratio of 1.2, sentiment scores 80 and 60, and a volatility index of 20.
\<close>

theorem calculateConfidence_bounds_witness:
  "calculateConfidence (Fin 75)
     \<lparr>macd_value = Fin 1, macd_signal = Fin 4, macd_histogram = Fin 2\<rparr> (Fin (12 / 10))
     \<lparr>newsScore = Some (Fin 80), socialScore = Some (Fin 60)\<rparr> (Fin 20) = Fin (252 / 5)"
proof -
  have e: "calculateConfidence (Fin 75)
     \<lparr>macd_value = Fin 1, macd_signal = Fin 4, macd_histogram = Fin 2\<rparr> (Fin (12 / 10))
     \<lparr>newsScore = Some (Fin 80), socialScore = Some (Fin 60)\<rparr> (Fin 20) = Fin (252 / 5)"
    by code_simp
  show ?thesis
    using e calculateConfidence_bounds[of 75 1 4 2 "12 / 10" "Some 80" "Some 60" 20]
    by simp
qed

text \<open>
  C9. A news score or a social score of 0 is replaced by the default 50, the value also
  used when the score is absent: the confidence is the same for a score of 0, for an
  absent score and for a score of 50, whatever the other inputs.
\<close>

theorem calculateConfidence_zero_score:
  "calculateConfidence rsi macd vr (s\<lparr>newsScore := Some (Fin 0)\<rparr>) vi
     = calculateConfidence rsi macd vr (s\<lparr>newsScore := None\<rparr>) vi
   \<and> calculateConfidence rsi macd vr (s\<lparr>newsScore := Some (Fin 0)\<rparr>) vi
     = calculateConfidence rsi macd vr (s\<lparr>newsScore := Some (Fin 50)\<rparr>) vi
   \<and> calculateConfidence rsi macd vr (s\<lparr>socialScore := Some (Fin 0)\<rparr>) vi
     = calculateConfidence rsi macd vr (s\<lparr>socialScore := None\<rparr>) vi
   \<and> calculateConfidence rsi macd vr (s\<lparr>socialScore := Some (Fin 0)\<rparr>) vi
     = calculateConfidence rsi macd vr (s\<lparr>socialScore := Some (Fin 50)\<rparr>) vi
   \<and> sentimentConfidence \<lparr>newsScore = Some (Fin 0), socialScore = Some (Fin 0)\<rparr> = Fin 50"
  by (simp add: calculateConfidence_def weightedConfidence_def sentimentConfidence_def)

section \<open>Support below resistance\<close>

text \<open>On finite numbers the array sort with the comparator \<open>a - b\<close> is the ascending sort.\<close>

lemma insert_by_sub_Fin:
  "insert_by (\<lambda>a b. jsub a b) (Fin x) (map Fin ys) = map Fin (insort x ys)"
  by (induction ys) auto

lemma js_sort_sub_Fin: "js_sort (\<lambda>a b. jsub a b) (map Fin xs) = map Fin (sort xs)"
  by (induction xs) (simp_all add: js_sort_def insert_by_sub_Fin)

lemma quartile_indices:
  assumes "0 < n"
  shows "nat \<lfloor>real n * (25 / 100)\<rfloor> \<le> nat \<lfloor>real n * (75 / 100)\<rfloor>"
    and "nat \<lfloor>real n * (75 / 100)\<rfloor> < n"
proof -
  have "real n * (25 / 100) \<le> real n * (75 / 100)" by simp
  then show "nat \<lfloor>real n * (25 / 100)\<rfloor> \<le> nat \<lfloor>real n * (75 / 100)\<rfloor>"
    by (intro nat_mono floor_mono)
  have "real n * (75 / 100) < real n" using assms by simp
  then have "\<lfloor>real n * (75 / 100)\<rfloor> < int n" by (simp add: floor_less_iff)
  then show "nat \<lfloor>real n * (75 / 100)\<rfloor> < n" by linarith
qed

lemma findSupportResistance_Fin:
  assumes "xs \<noteq> []"
  shows "\<exists>s r. sr_support (findSupportResistance (map Fin xs)) = Some (Fin s)
           \<and> sr_resistance (findSupportResistance (map Fin xs)) = Some (Fin r)
           \<and> s \<le> r"
proof -
  let ?n = "length xs"
  let ?q1 = "nat \<lfloor>real ?n * (25 / 100)\<rfloor>"
  let ?q3 = "nat \<lfloor>real ?n * (75 / 100)\<rfloor>"
  have n: "0 < ?n" using assms by simp
  have q13: "?q1 \<le> ?q3" and q3: "?q3 < ?n" using quartile_indices[OF n] by auto
  have q1: "?q1 < ?n" using q13 q3 by linarith
  have le: "sort xs ! ?q1 \<le> sort xs ! ?q3"
    using q13 q3 by (simp add: sorted_nth_mono)
  have s: "sr_support (findSupportResistance (map Fin xs)) = Some (Fin (sort xs ! ?q1))"
    using q1 by (simp add: findSupportResistance_def js_sort_sub_Fin js_index_def Let_def)
  have r: "sr_resistance (findSupportResistance (map Fin xs)) = Some (Fin (sort xs ! ?q3))"
    using q3 by (simp add: findSupportResistance_def js_sort_sub_Fin js_index_def Let_def)
  show ?thesis using s r le by simp
qed

text \<open>
  C10 (as amended). For every non-empty list of finite prices, \<^verbatim>\<open>findSupportResistance\<close>
  returns a support and a resistance, both read inside the sorted copy, and support
  \<open>\<le>\<close> resistance in the sense of the JavaScript comparison.
\<close>

theorem findSupportResistance_ordered:
  assumes "xs \<noteq> []"
  shows "sr_support (findSupportResistance (map Fin xs)) \<noteq> None
       \<and> sr_resistance (findSupportResistance (map Fin xs)) \<noteq> None
       \<and> jle (toNumber (sr_support (findSupportResistance (map Fin xs))))
             (toNumber (sr_resistance (findSupportResistance (map Fin xs))))"
proof -
  obtain s r where "sr_support (findSupportResistance (map Fin xs)) = Some (Fin s)"
    and "sr_resistance (findSupportResistance (map Fin xs)) = Some (Fin r)" and "s \<le> r"
    using findSupportResistance_Fin[OF assms] by blast
  then show ?thesis by simp
qed

text \<open>Five prices: the support is the second smallest, the resistance the fourth.\<close>

theorem findSupportResistance_ordered_witness:
  "[5, 1, 4, 2, 3] \<noteq> ([] :: real list)
   \<and> findSupportResistance (map Fin [5, 1, 4, 2, 3])
       = \<lparr>sr_support = Some (Fin 2), sr_resistance = Some (Fin 4)\<rparr>
   \<and> jle (toNumber (sr_support (findSupportResistance (map Fin [5, 1, 4, 2, 3]))))
         (toNumber (sr_resistance (findSupportResistance (map Fin [5, 1, 4, 2, 3]))))"
proof -
  have h: "[5, 1, 4, 2, 3] \<noteq> ([] :: real list)" by simp
  have e: "findSupportResistance (map Fin [5, 1, 4, 2, 3])
       = \<lparr>sr_support = Some (Fin 2), sr_resistance = Some (Fin 4)\<rparr>" by code_simp
  show ?thesis using h e findSupportResistance_ordered[OF h] by blast
qed

text \<open>
  C10 as stated, for every non-empty list, fails when a price is \<open>NaN\<close>. The list
  \<open>[NaN]\<close> has one order only: support and resistance are both \<open>NaN\<close>, and \<open>NaN \<le> NaN\<close>
  is false. On \<open>[2, NaN, 1]\<close> the sort compares each of 1 and 2 with \<open>NaN\<close>, which
  decides nothing, the array stays as it is, and the support 2 is above the resistance 1.
\<close>

theorem findSupportResistance_ordered_counterexample:
  "findSupportResistance [NaN] = \<lparr>sr_support = Some NaN, sr_resistance = Some NaN\<rparr>
   \<and> \<not> jle (toNumber (sr_support (findSupportResistance [NaN])))
           (toNumber (sr_resistance (findSupportResistance [NaN])))
   \<and> findSupportResistance [Fin 2, NaN, Fin 1]
       = \<lparr>sr_support = Some (Fin 2), sr_resistance = Some (Fin 1)\<rparr>
   \<and> \<not> jle (toNumber (sr_support (findSupportResistance [Fin 2, NaN, Fin 1])))
           (toNumber (sr_resistance (findSupportResistance [Fin 2, NaN, Fin 1])))"
proof -
  have a: "findSupportResistance [NaN] = \<lparr>sr_support = Some NaN, sr_resistance = Some NaN\<rparr>"
    by code_simp
  have b: "findSupportResistance [Fin 2, NaN, Fin 1]
       = \<lparr>sr_support = Some (Fin 2), sr_resistance = Some (Fin 1)\<rparr>"
    by code_simp
  show ?thesis unfolding a b by (simp add: jle_def jeq_def)
qed

section \<open>The stochastic RSI of degenerate windows\<close>

lemma jsub_self_zeroish: "zeroish (jsub v v)"
  by (cases v) (simp_all add: jsub_def zeroish_def)

lemma flat_difference:
  "zeroish (jsub (num_at (replicate m v) i) (num_at (replicate m v) j))"
  using jsub_self_zeroish[of v] by (simp add: num_at_replicate) (simp add: zeroish_def)

lemma zeroish_ops:
  assumes "zeroish a" and "zeroish b"
  shows "zeroish (jadd a b)" and "zeroish (jsub a b)" and "zeroish (jmul a (Fin k))"
    and "zeroish (jdiv a (Fin k))"
  using assms by (auto simp add: zeroish_def jsub_def)

lemma jge_zeroish: "zeroish d \<Longrightarrow> jge d (Fin 0) = (d = Fin 0)"
  by (auto simp add: zeroish_def jge_def jgt_def jeq_def)

lemma seed_step_flat:
  assumes "zeroish (fst s)" and "zeroish (snd s)"
  shows "zeroish (fst (rsi_seed_step (replicate m v) i s))
       \<and> zeroish (snd (rsi_seed_step (replicate m v) i s))"
proof -
  have d: "zeroish (jsub (num_at (replicate m v) i) (num_at (replicate m v) (i - 1)))"
    by (rule flat_difference)
  show ?thesis using assms d zeroish_ops
    by (cases s) (simp add: rsi_seed_step_def Let_def)
qed

lemma smooth_step_flat:
  assumes "zeroish (fst s)" and "zeroish (snd s)"
  shows "zeroish (fst (rsi_smooth_step (replicate m v) p i s))
       \<and> zeroish (snd (rsi_smooth_step (replicate m v) p i s))"
proof -
  have d: "zeroish (jsub (num_at (replicate m v) i) (num_at (replicate m v) (i - 1)))"
    by (rule flat_difference)
  show ?thesis using assms d zeroish_ops
    by (cases s) (simp add: rsi_smooth_step_def Let_def)
qed

lemma seed_fold_flat:
  "zeroish (fst s) \<Longrightarrow> zeroish (snd s) \<Longrightarrow>
   zeroish (fst (fold (rsi_seed_step (replicate m v)) ixs s))
   \<and> zeroish (snd (fold (rsi_seed_step (replicate m v)) ixs s))"
  by (rule fold_invariant[where P = "\<lambda>s. zeroish (fst s) \<and> zeroish (snd s)"])
    (simp_all add: seed_step_flat)

lemma smooth_fold_flat:
  "zeroish (fst s) \<Longrightarrow> zeroish (snd s) \<Longrightarrow>
   zeroish (fst (fold (rsi_smooth_step (replicate m v) p) ixs s))
   \<and> zeroish (snd (fold (rsi_smooth_step (replicate m v) p) ixs s))"
  by (rule fold_invariant[where P = "\<lambda>s. zeroish (fst s) \<and> zeroish (snd s)"])
    (simp_all add: smooth_step_flat)

lemma rsi_seed_flat:
  "zeroish (fst (rsi_seed (replicate m v) p)) \<and> zeroish (snd (rsi_seed (replicate m v) p))"
proof -
  have z: "zeroish (fst (Fin 0, Fin 0))" "zeroish (snd (Fin 0, Fin 0))"
    by (simp_all add: zeroish_def)
  show ?thesis
    unfolding rsi_seed_def split_beta Let_def fst_conv snd_conv
    using seed_fold_flat[OF z, of m v "[1..<p + 1]"] zeroish_ops(4) by blast
qed

lemma rsi_averages_flat:
  "zeroish (fst (rsi_averages (replicate m v) p))
   \<and> zeroish (snd (rsi_averages (replicate m v) p))"
  unfolding rsi_averages_def
  using smooth_fold_flat rsi_seed_flat by blast

lemma jdiv_zeroish: "zeroish a \<Longrightarrow> zeroish b \<Longrightarrow> jdiv a b = NaN"
  by (auto simp add: zeroish_def)

text \<open>The RSI of a constant series is \<open>0/0\<close>.\<close>

lemma calculateRSI_flat: "calculateRSI (replicate m v) p = NaN"
  using rsi_averages_flat[of m v p]
  by (simp add: calculateRSI_def split_beta jdiv_zeroish)

lemma calculateRSI_flat_Cons: "calculateRSI (v # replicate m v) p = NaN"
  using calculateRSI_flat[of "Suc m" v p] by simp

lemma js_slice_replicate: "js_slice (replicate m v) a b = replicate (min b m - a) v"
  by (simp add: js_slice_def)

lemma stoch_loop_flat:
  "(fst (snd (stoch_loop (replicate m v) p)) = PInf
      \<and> snd (snd (stoch_loop (replicate m v) p)) = NInf)
   \<or> (fst (snd (stoch_loop (replicate m v) p)) = NaN
      \<and> snd (snd (stoch_loop (replicate m v) p)) = NaN)"
  unfolding stoch_loop_def
  by (rule fold_invariant[where P = "\<lambda>s. (fst (snd s) = PInf \<and> snd (snd s) = NInf)
        \<or> (fst (snd s) = NaN \<and> snd (snd s) = NaN)"])
    (simp_all add: stoch_step_def split_beta Let_def js_slice_replicate calculateRSI_flat
      calculateRSI_flat_Cons)

lemma calculateStochRSI_flat: "calculateStochRSI (replicate m v) p = Fin 50"
  using stoch_loop_flat[of m v p]
  by (auto simp add: calculateStochRSI_def split_beta jsub_def)

lemma calculateStochRSI_range:
  "\<not> jisFinite (stoch_range prices period) \<or> jeq (stoch_range prices period) (Fin 0)
     \<Longrightarrow> calculateStochRSI prices period = Fin 50"
  by (simp add: calculateStochRSI_def stoch_range_def split_beta)

text \<open>
  C7. Whenever the range between the largest and the smallest rolling RSI is not finite
  or is zero, \<^verbatim>\<open>calculateStochRSI\<close> returns exactly 50; and it returns exactly 50 on
  every constant price series, of any length and for any period.
\<close>

theorem calculateStochRSI_degenerate:
  "(\<not> jisFinite (stoch_range prices period) \<or> jeq (stoch_range prices period) (Fin 0)
      \<longrightarrow> calculateStochRSI prices period = Fin 50)
   \<and> calculateStochRSI (replicate n (Fin c)) period = Fin 50"
  using calculateStochRSI_range calculateStochRSI_flat by blast

text \<open>
  Fifteen prices that alternate between 1 and 2 give one window, so a range of zero;
  twenty prices of 100 give a range that is not finite.
\<close>

theorem calculateStochRSI_degenerate_witness:
  "jeq (stoch_range (map Fin [1, 2, 1, 2, 1, 2, 1, 2, 1, 2, 1, 2, 1, 2, 1]) 14) (Fin 0)
   \<and> calculateStochRSI (map Fin [1, 2, 1, 2, 1, 2, 1, 2, 1, 2, 1, 2, 1, 2, 1]) 14 = Fin 50
   \<and> \<not> jisFinite (stoch_range (replicate 20 (Fin 100)) 14)
   \<and> calculateStochRSI (replicate 20 (Fin 100)) 14 = Fin 50"
proof -
  have z: "jeq (stoch_range (map Fin [1, 2, 1, 2, 1, 2, 1, 2, 1, 2, 1, 2, 1, 2, 1]) 14) (Fin 0)"
    by code_simp
  have f: "\<not> jisFinite (stoch_range (replicate 20 (Fin 100)) 14)"
    by code_simp
  show ?thesis
    using z f
      calculateStochRSI_degenerate
        [of "map Fin [1, 2, 1, 2, 1, 2, 1, 2, 1, 2, 1, 2, 1, 2, 1]" 14 20 100]
      calculateStochRSI_degenerate[of "replicate 20 (Fin 100)" 14 20 100]
    by blast
qed

section \<open>The smoothing step of the RSI\<close>

text \<open>
  For the default period 14 the second loop of \<^verbatim>\<open>calculateRSI\<close> is the update the
  specification describes, since \<open>13 = 14 - 1\<close>.
\<close>

lemma jadd_zero_right: "jadd x (Fin 0) = x"
  by (cases x) simp_all

lemma rsi_smooth_step_period_14:
  "rsi_smooth_step prices 14 i s = spec_wilder_step prices 14 i s"
  by (cases s) (simp add: rsi_smooth_step_def spec_wilder_step_def Let_def jadd_zero_right jsub_def)

lemma rsi_averages_period_14: "rsi_averages prices 14 = spec_wilder_averages prices 14"
proof -
  have "rsi_smooth_step prices 14 = spec_wilder_step prices 14"
    by (intro ext) (rule rsi_smooth_step_period_14)
  then show ?thesis by (simp add: rsi_averages_def spec_wilder_averages_def)
qed

text \<open>
  C5. The claim is for every period; the source multiplies by the constant 13 whatever
  the period is. At the prices 10, 11, 10, 12 and period 2 the seed averages are 1/2 and
  1/2, and the one remaining difference, +2, takes them to 17/4 and 13/4 in the source,
  where the update \<open>(avg * (period - 1) + x) / period\<close> gives 5/4 and 1/4; the RSI
  returned is 170/3, not 250/3.
\<close>

theorem calculateRSI_smoothing_constant:
  "rsi_seed [Fin 10, Fin 11, Fin 10, Fin 12] 2 = (Fin (1 / 2), Fin (1 / 2))
   \<and> rsi_averages [Fin 10, Fin 11, Fin 10, Fin 12] 2 = (Fin (17 / 4), Fin (13 / 4))
   \<and> spec_wilder_averages [Fin 10, Fin 11, Fin 10, Fin 12] 2 = (Fin (5 / 4), Fin (1 / 4))
   \<and> rsi_averages [Fin 10, Fin 11, Fin 10, Fin 12] 2
       \<noteq> spec_wilder_averages [Fin 10, Fin 11, Fin 10, Fin 12] 2
   \<and> calculateRSI [Fin 10, Fin 11, Fin 10, Fin 12] 2 = Fin (170 / 3)"
proof -
  have a: "rsi_seed [Fin 10, Fin 11, Fin 10, Fin 12] 2 = (Fin (1 / 2), Fin (1 / 2))"
    by code_simp
  have b: "rsi_averages [Fin 10, Fin 11, Fin 10, Fin 12] 2 = (Fin (17 / 4), Fin (13 / 4))"
    by code_simp
  have c: "spec_wilder_averages [Fin 10, Fin 11, Fin 10, Fin 12] 2 = (Fin (5 / 4), Fin (1 / 4))"
    by code_simp
  have d: "calculateRSI [Fin 10, Fin 11, Fin 10, Fin 12] 2 = Fin (170 / 3)"
    by code_simp
  show ?thesis unfolding a b c d by simp
qed

section \<open>Volatility as a root mean square\<close>

lemma jlog_ratio_Fin:
  "0 < a \<Longrightarrow> 0 < b \<Longrightarrow> jlog (jdiv (Fin a) (Fin b)) = Fin (ln (a / b))"
  by (simp add: divide_less_0_iff)

lemma log_returns_Fin:
  assumes "\<forall>p\<in>set ps. 0 < p"
  shows "log_returns (map Fin ps) = map Fin (spec_log_returns ps)"
proof (rule nth_equalityI)
  show "length (log_returns (map Fin ps)) = length (map Fin (spec_log_returns ps))"
    by (simp add: log_returns_def js_map_indexed_def spec_log_returns_def)
next
  fix i assume "i < length (log_returns (map Fin ps))"
  then have i: "i < length ps - 1"
    by (simp add: log_returns_def js_map_indexed_def)
  then have a: "0 < ps ! i" and b: "0 < ps ! (i + 1)" using assms by simp_all
  have "log_returns (map Fin ps) ! i = jlog (jdiv (Fin (ps ! (i + 1))) (Fin (ps ! i)))"
    using i by (simp add: log_returns_def js_map_indexed_def num_at_map_Fin)
  also have "\<dots> = Fin (ln (ps ! (i + 1) / ps ! i))"
    using a b by (simp only: jlog_ratio_Fin)
  also have "\<dots> = map Fin (spec_log_returns ps) ! i"
    using i by (simp add: spec_log_returns_def)
  finally show "log_returns (map Fin ps) ! i = map Fin (spec_log_returns ps) ! i" .
qed

lemma fold_squares_Fin:
  "fold (\<lambda>ret sum. jadd sum (jpow2 ret)) (map Fin rs) (Fin a)
     = Fin (a + sum_list (map (\<lambda>x. x ^ 2) rs))"
  by (induction rs arbitrary: a) (simp_all add: power2_eq_square algebra_simps)

lemma sum_squares_Fin: "sum_squares (map Fin rs) = Fin (sum_list (map (\<lambda>x. x ^ 2) rs))"
  by (simp add: sum_squares_def fold_squares_Fin)

lemma sum_list_squares_nonneg: "0 \<le> sum_list (map (\<lambda>x. x ^ 2) (rs :: real list))"
  by (rule sum_list_nonneg) auto

lemma rms_Fin:
  assumes "rs \<noteq> []"
  shows "jsqrt (jdiv (sum_squares (map Fin rs)) (Fin (real (length (map Fin rs)))))
         = Fin (root_mean_square rs)"
proof -
  have "0 \<le> sum_list (map (\<lambda>x. x ^ 2) rs) / real (length rs)"
    using sum_list_squares_nonneg[of rs] by simp
  then show ?thesis
    using assms by (simp add: sum_squares_Fin root_mean_square_def)
qed

lemma spec_log_returns_nonempty: "2 \<le> length ps \<Longrightarrow> spec_log_returns ps \<noteq> []"
  by (auto simp add: spec_log_returns_def)

lemma spec_log_returns_124: "spec_log_returns [1, 2, 4] = [ln 2, ln 2]"
  by (simp add: spec_log_returns_def upt_rec numeral_2_eq_2 numeral_3_eq_3)

lemma rms_124: "root_mean_square [ln 2, ln 2] = ln 2"
  by (simp add: root_mean_square_def)

text \<open>
  C4 (as amended). For every series of at least two positive prices,
  \<^verbatim>\<open>calculateVolatility\<close> is the root mean square of the log returns \<open>ln (p[i] / p[i-1])\<close>,
  that is their deviation about zero and not about their mean, multiplied by
  \<open>sqrt 365\<close> and by 100.
\<close>

theorem calculateVolatility_rms:
  assumes "\<forall>p\<in>set ps. 0 < p" and "2 \<le> length ps"
  shows "calculateVolatility (map Fin ps)
         = Fin (root_mean_square (spec_log_returns ps) * sqrt 365 * 100)"
  using rms_Fin[OF spec_log_returns_nonempty[OF assms(2)]]
  by (simp add: calculateVolatility_def log_returns_Fin[OF assms(1)] Let_def)

text \<open>The prices 1, 2, 4 double twice: both log returns are \<open>ln 2\<close>, and so is their root mean square.\<close>

theorem calculateVolatility_rms_witness:
  "(0::real) < 1 \<and> (0::real) < 2 \<and> (0::real) < 4 \<and> 2 \<le> length [1, 2, 4 :: real]
   \<and> calculateVolatility [Fin 1, Fin 2, Fin 4] = Fin (ln 2 * sqrt 365 * 100)"
proof -
  have h1: "\<forall>p\<in>set [1, 2, 4 :: real]. 0 < p" by simp
  have h2: "2 \<le> length [1, 2, 4 :: real]" by simp
  show ?thesis
    using h1 h2 calculateVolatility_rms[OF h1 h2]
    by (simp add: spec_log_returns_124 rms_124)
qed

text \<open>
  C4 as stated fails on the same prices: the two log returns are equal, so their standard
  deviation is 0 (over \<open>n\<close> and over \<open>n - 1\<close> alike), and the volatility returned is
  \<open>ln 2 * sqrt 365 * 100\<close>, which is not 0.
\<close>

theorem calculateVolatility_std_dev_counterexample:
  "calculateVolatility [Fin 1, Fin 2, Fin 4] = Fin (ln 2 * sqrt 365 * 100)
   \<and> spec_std_dev (spec_log_returns [1, 2, 4]) = 0
   \<and> spec_sample_std_dev (spec_log_returns [1, 2, 4]) = 0
   \<and> calculateVolatility [Fin 1, Fin 2, Fin 4]
       \<noteq> Fin (spec_std_dev (spec_log_returns [1, 2, 4]) * sqrt 365 * 100)
   \<and> calculateVolatility [Fin 1, Fin 2, Fin 4]
       \<noteq> Fin (spec_sample_std_dev (spec_log_returns [1, 2, 4]) * sqrt 365 * 100)"
proof -
  have r: "jsqrt (jdiv (sum_squares (map Fin [ln 2, ln 2])) (Fin (real (length (map Fin [ln 2 :: real, ln 2])))))
      = Fin (ln 2)"
    using rms_Fin[of "[ln 2, ln 2]"] by (simp add: rms_124)
  have l: "log_returns (map Fin [1, 2, 4]) = map Fin [ln 2, ln 2]"
    using log_returns_Fin[of "[1, 2, 4]"] by (simp add: spec_log_returns_124)
  have v: "calculateVolatility [Fin 1, Fin 2, Fin 4] = Fin (ln 2 * sqrt 365 * 100)"
    using r l by (simp add: calculateVolatility_def Let_def)
  have m: "spec_mean [ln 2, ln 2] = ln 2" by (simp add: spec_mean_def)
  have d: "spec_std_dev (spec_log_returns [1, 2, 4]) = 0"
    by (simp add: spec_log_returns_124 spec_std_dev_def m)
  have e: "spec_sample_std_dev (spec_log_returns [1, 2, 4]) = 0"
    by (simp add: spec_log_returns_124 spec_sample_std_dev_def m)
  have p: "0 < ln (2 :: real) * sqrt 365 * 100" by simp
  show ?thesis using v d e p by simp
qed

section \<open>Price targets around the current price\<close>

lemma fold_add_Fin: "fold (\<lambda>b a. jadd a b) (map Fin xs) (Fin a) = Fin (a + sum_list xs)"
  by (induction xs arbitrary: a) (simp_all add: algebra_simps)

lemma js_slice_end_map: "js_slice_end (map f xs) n = map f (js_slice_end xs n)"
  by (simp add: js_slice_end_def drop_map)

lemma calculateSMA_Fin:
  "0 < k \<Longrightarrow> calculateSMA (map Fin ps) k = Fin (sum_list (js_slice_end ps k) / real k)"
  by (simp add: calculateSMA_def js_slice_end_map fold_add_Fin)

lemma sum_list_pos_real:
  "xs \<noteq> [] \<Longrightarrow> \<forall>x\<in>set xs. 0 < (x::real) \<Longrightarrow> 0 < sum_list xs"
proof (induction xs)
  case Nil
  then show ?case by simp
next
  case (Cons a xs)
  then have a: "0 < a" by simp
  have "\<And>x. x \<in> set xs \<Longrightarrow> 0 \<le> x" using Cons.prems(2) by (simp add: less_imp_le)
  then have "0 \<le> sum_list xs" by (rule sum_list_nonneg)
  then show ?case using a by simp
qed

lemma js_slice_end_pos:
  assumes "\<forall>p\<in>set ps. 0 < (p::real)" and "ps \<noteq> []" and "0 < k"
  shows "0 < sum_list (js_slice_end ps k)"
proof -
  have "0 < length ps" using assms(2) by simp
  then have "length ps - k < length ps" using assms(3) by linarith
  then have ne: "js_slice_end ps k \<noteq> []" using assms(3) by (simp add: js_slice_end_def)
  have "\<forall>p\<in>set (js_slice_end ps k). 0 < p"
    using assms(1) by (auto simp add: js_slice_end_def dest: in_set_dropD)
  then show ?thesis using ne by (simp add: sum_list_pos_real)
qed

lemma pt_momentum_Fin:
  assumes "\<forall>p\<in>set ps. 0 < p" and "ps \<noteq> []"
  shows "\<exists>m. pt_momentum (map Fin ps) = Fin m"
proof -
  have "0 < sum_list (js_slice_end ps 50)" using js_slice_end_pos[OF assms] by simp
  then have "sum_list (js_slice_end ps 50) / 50 \<noteq> 0" by simp
  then show ?thesis by (simp add: pt_momentum_def calculateSMA_Fin Let_def)
qed

lemma pt_annualizedVol_Fin:
  assumes "\<forall>p\<in>set ps. 0 < p" and "2 \<le> length ps"
  shows "pt_annualizedVol (map Fin ps) = Fin (root_mean_square (spec_log_returns ps) * sqrt 365)"
  using rms_Fin[OF spec_log_returns_nonempty[OF assms(2)]]
  by (simp add: pt_annualizedVol_def log_returns_Fin[OF assms(1)] Let_def)







lemma spec_log_returns_single [simp]: "spec_log_returns [x] = []"
  by (simp add: spec_log_returns_def)






















text \<open>
  What the statement below leaves out. The second service's \<^verbatim>\<open>calculateSMA\<close> divides the
  sum of the last prices by the period even when there are fewer prices than that (the
  first service's divides by their number). Two prices of 100 then have an SMA20 of 10, an
  SMA50 of 4 and a momentum of 3/2, and with current price, support and resistance all at
  100 the 24H range is from 115 down to 100.
\<close>

lemma vol_flat2: "pt_annualizedVol [Fin 100, Fin 100] = Fin 0"
  using pt_annualizedVol_Fin[of "[100, 100]"]
  by (simp add: spec_log_returns_def root_mean_square_def upt_rec numeral_2_eq_2)

lemma momentum_flat2: "pt_momentum [Fin 100, Fin 100] = Fin (3 / 2)"
  by (simp add: pt_momentum_def calculateSMA_def js_slice_end_def Let_def)

lemma calculatePriceTargets_short_series:
  "pt_low (shortTerm (calculatePriceTargets (Fin 100) [Fin 100, Fin 100] (Fin 0) (Fin 100)
       (Fin 100))) = Fin 115
   \<and> pt_high (shortTerm (calculatePriceTargets (Fin 100) [Fin 100, Fin 100] (Fin 0) (Fin 100)
       (Fin 100))) = Fin 100"
  by (simp add: calculatePriceTargets_def priceRanges_def momentumBias_def vol_flat2
      momentum_flat2 Let_def)




section \<open>Failures of the strategy generator\<close>

lemma getDefaultStrategy_levels:
  "getDefaultStrategy =
     \<lparr>recommendation = [Lit ''Hold''], confidence = Fin 50,
      entries = \<lparr>conservative = Fin 74480, moderate = Fin 76000, aggressive = Fin 77520\<rparr>,
      stopLoss = \<lparr>tight = Fin 72200, normal = Fin 73720, wide = Fin 70680\<rparr>,
      targets = \<lparr>primary = Fin 78280, secondary = Fin 79800, final = Fin 82080\<rparr>,
      timeframe = ''Medium-term'',
      rationale = [[Lit ''Using default strategy due to insufficient data'']]\<rparr>"
  by (simp add: getDefaultStrategy_def)

lemma generateStrategy_try_invalid:
  "\<not> truthy (toNumber (in_currentPrice data)) \<or> jisNaN (toNumber (in_currentPrice data))
     \<Longrightarrow> generateStrategy_try data = Inl (Error ''Invalid current price'')"
  by (simp add: generateStrategy_try_def Let_def)

lemma sample_input_strategy:
  "generateStrategy sample_input =
     ([], Inr \<lparr>recommendation = [Lit ''Take Profit'', Lit '' ('', Num (Fin 77), Lit ''%)''],
               confidence = Fin 77,
               entries = \<lparr>conservative = Fin 95, moderate = Fin 100, aggressive = Fin 103\<rparr>,
               stopLoss = \<lparr>tight = Fin (492 / 5), normal = Fin (488 / 5), wide = Fin 96\<rparr>,
               targets = \<lparr>primary = Fin (518 / 5), secondary = Fin 106, final = Fin (548 / 5)\<rparr>,
               timeframe = ''Medium-term'',
               rationale =
                 [[Lit ''Market Phase: '', Lit ''Bull Market'', Lit '' with '', Fixed 1 (Fin 80),
                   Lit ''% strength''],
                  [Lit ''RSI: '', Lit ''Overbought''],
                  [Lit ''MACD: '', Lit ''Bullish''],
                  [Lit ''Support at $'', Fixed 2 (Fin 95)],
                  [Lit ''Resistance at $'', Fixed 2 (Fin 110)],
                  [Lit ''Strong '', Lit ''Bullish'', Lit '' trend'']]\<rparr>)"
  by code_simp

text \<open>
  C8. Whatever exception the body of \<^verbatim>\<open>generateStrategy\<close> raises, the function logs it
  and its promise is fulfilled with the fixed default strategy: recommendation Hold,
  confidence 50, and levels that are fixed fractions of the constant 76000. On no input
  is the promise rejected.
\<close>

theorem generateStrategy_catches:
  "(generateStrategy_try data = Inl e
      \<longrightarrow> generateStrategy data = ([e], Inr getDefaultStrategy))
   \<and> (\<exists>s. snd (generateStrategy data) = Inr s)
   \<and> recommendation getDefaultStrategy = [Lit ''Hold'']
   \<and> confidence getDefaultStrategy = Fin 50
   \<and> entries getDefaultStrategy
       = \<lparr>conservative = Fin 74480, moderate = Fin 76000, aggressive = Fin 77520\<rparr>
   \<and> stopLoss getDefaultStrategy = \<lparr>tight = Fin 72200, normal = Fin 73720, wide = Fin 70680\<rparr>
   \<and> targets getDefaultStrategy
       = \<lparr>primary = Fin 78280, secondary = Fin 79800, final = Fin 82080\<rparr>"
proof -
  have a: "generateStrategy_try data = Inl e
      \<longrightarrow> generateStrategy data = ([e], Inr getDefaultStrategy)"
    by (simp add: generateStrategy_def)
  have b: "\<exists>s. snd (generateStrategy data) = Inr s"
    by (cases "generateStrategy_try data") (simp_all add: generateStrategy_def)
  show ?thesis using a b by (simp add: getDefaultStrategy_levels)
qed

text \<open>
  Without key levels the first entry calculation throws a \<^verbatim>\<open>TypeError\<close>; without a
  support among the key levels the entries, the recommendation, the stops and the
  targets are all computed and the rationale throws. Both end in the default strategy.
\<close>

theorem generateStrategy_catches_witness:
  "generateStrategy_try sample_without_levels = Inl TypeError
   \<and> generateStrategy sample_without_levels = ([TypeError], Inr getDefaultStrategy)
   \<and> generateStrategy_try sample_without_support = Inl TypeError
   \<and> generateStrategy sample_without_support = ([TypeError], Inr getDefaultStrategy)"
proof -
  have a: "generateStrategy_try sample_without_levels = Inl TypeError" by code_simp
  have b: "generateStrategy_try sample_without_support = Inl TypeError" by code_simp
  show ?thesis
    using a b generateStrategy_catches[of sample_without_levels TypeError]
      generateStrategy_catches[of sample_without_support TypeError]
    by blast
qed

text \<open>
  C1. The claim is that an invalid current price makes \<^verbatim>\<open>generateStrategy\<close> fail with
  an error that reaches the caller. The source does throw \<open>Invalid current price\<close>, but
  as the first statement inside its own \<^verbatim>\<open>try\<close> block: for a current price that is
  \<^verbatim>\<open>undefined\<close>, 0 or \<open>NaN\<close>, whatever the other fields, the error is caught and logged,
  and the promise is fulfilled with the default strategy, whose levels come from the
  constant 76000. So it is on the sample input with its price set to 0: the outcome is
  not the error.
\<close>

theorem generateStrategy_invalid_price:
  "generateStrategy (data\<lparr>in_currentPrice := None\<rparr>)
     = ([Error ''Invalid current price''], Inr getDefaultStrategy)
   \<and> generateStrategy (data\<lparr>in_currentPrice := Some (Fin 0)\<rparr>)
     = ([Error ''Invalid current price''], Inr getDefaultStrategy)
   \<and> generateStrategy (data\<lparr>in_currentPrice := Some NaN\<rparr>)
     = ([Error ''Invalid current price''], Inr getDefaultStrategy)
   \<and> snd (generateStrategy (sample_input\<lparr>in_currentPrice := Some (Fin 0)\<rparr>))
     = Inr getDefaultStrategy
   \<and> snd (generateStrategy (sample_input\<lparr>in_currentPrice := Some (Fin 0)\<rparr>))
     \<noteq> Inl (Error ''Invalid current price'')
   \<and> moderate (entries getDefaultStrategy) = Fin 76000"
  by (simp add: generateStrategy_def generateStrategy_try_invalid getDefaultStrategy_levels)

end
